theory Spec2Isabelle
  imports Complex_Main "HOL-Library.Word"
begin

section \<open>JavaScript values as the TMDB client sees them\<close>

text \<open>
  The client (\<^verbatim>\<open>fetchTrendingMovies\<close>, \<^verbatim>\<open>fetchMoviesRecommendation\<close>,
  \<^verbatim>\<open>fetchMovieDetail\<close>, \<^verbatim>\<open>fetchMovieCredits\<close>, \<^verbatim>\<open>fetchMovieTrailer\<close>,
  \<^verbatim>\<open>fetchMovieReviews\<close>, \<^verbatim>\<open>searchMovies\<close>) is TypeScript: its interfaces are
  erased at run time, and what \<^verbatim>\<open>res.json()\<close> hands to the mapping code is whatever
  JSON the upstream sent. The model therefore works on untyped JSON values and writes
  out the coercions and the exceptions of the JavaScript operations the source uses.
\<close>

subsection \<open>Strings\<close>

text \<open>A JavaScript string is a sequence of UTF-16 code units.\<close>

type_synonym js_string = "16 word list"

definition utf16 :: "string \<Rightarrow> js_string" where
  "utf16 s = map (\<lambda>c. word_of_nat (of_char c)) s"

subsection \<open>Exceptions\<close>

text \<open>
  \<open>Error msg\<close> is \<^verbatim>\<open>new Error(msg)\<close>, thrown by the source itself; the others are
  raised by the platform: \<open>TypeError\<close> by a property read on \<^verbatim>\<open>null\<close> or
  \<^verbatim>\<open>undefined\<close> and by a call of something that is not a function, \<open>SyntaxError\<close> by
  \<^verbatim>\<open>res.json()\<close> on a body that is not JSON, \<open>URIError\<close> by
  \<^verbatim>\<open>encodeURIComponent\<close>, \<open>NetworkError\<close> stands for a rejected \<^verbatim>\<open>fetch\<close>.
\<close>

datatype exn = Error js_string | TypeError | SyntaxError | URIError | NetworkError

definition and_then :: "exn + 'a \<Rightarrow> ('a \<Rightarrow> exn + 'b) \<Rightarrow> exn + 'b" where
  "and_then m f = (case m of Inl e \<Rightarrow> Inl e | Inr x \<Rightarrow> f x)"

subsection \<open>Numbers and JSON\<close>

text \<open>
  A number that \<^verbatim>\<open>JSON.parse\<close> produces is a finite double, which is a rational, or
  an infinity (when the literal overflows). No arithmetic is done on numbers by the
  client; they are only passed on and rendered as strings.
\<close>

datatype number = Finite rat | PosInfinity | NegInfinity

datatype json =
    JNull
  | JBool bool
  | JNum number
  | JStr js_string
  | JArr "json list"
  | JObj "(js_string \<times> json) list"

text \<open>
  A JavaScript value in this program is a JSON value or \<^verbatim>\<open>undefined\<close> (\<open>None\<close>).
  \<open>JObj kvs\<close> lists the own properties of a parsed object; \<open>map_of kvs k\<close> reads one.
\<close>

type_synonym jsval = "json option"

subsection \<open>Property reads\<close>

text \<open>
  \<^verbatim>\<open>v.k\<close> for the data keys the source reads (\<^verbatim>\<open>results\<close>, \<^verbatim>\<open>cast\<close>, \<^verbatim>\<open>id\<close>,
  \<^verbatim>\<open>title\<close>, \<^verbatim>\<open>poster_path\<close>, ...): a \<open>TypeError\<close> on \<^verbatim>\<open>null\<close> and
  \<^verbatim>\<open>undefined\<close>, the own property of an object, and \<^verbatim>\<open>undefined\<close> on a boolean,
  number, string or array, none of which has a member of one of these names.
\<close>

fun get :: "jsval \<Rightarrow> js_string \<Rightarrow> exn + jsval" where
  "get None k = Inl TypeError"
| "get (Some JNull) k = Inl TypeError"
| "get (Some (JObj kvs)) k = Inr (map_of kvs k)"
| "get (Some v) k = Inr None"

text \<open>
  \<^verbatim>\<open>v?.k\<close>: \<^verbatim>\<open>undefined\<close> when \<open>v\<close> is \<^verbatim>\<open>null\<close> or \<^verbatim>\<open>undefined\<close>, \<^verbatim>\<open>v.k\<close>
  otherwise.
\<close>

fun get_optional :: "jsval \<Rightarrow> js_string \<Rightarrow> exn + jsval" where
  "get_optional None k = Inr None"
| "get_optional (Some JNull) k = Inr None"
| "get_optional v k = get v k"

text \<open>\<^verbatim>\<open>v ?? null\<close>.\<close>

fun or_null :: "jsval \<Rightarrow> json" where
  "or_null None = JNull"
| "or_null (Some v) = v"

text \<open>
  \<^verbatim>\<open>v[0]\<close>: the first element of an array, the first code unit of a string (as a
  string), the own property \<^verbatim>\<open>"0"\<close> of an object; \<^verbatim>\<open>undefined\<close> when there is none.
\<close>

fun at0 :: "jsval \<Rightarrow> exn + jsval" where
  "at0 None = Inl TypeError"
| "at0 (Some JNull) = Inl TypeError"
| "at0 (Some (JArr xs)) = Inr (case xs of [] \<Rightarrow> None | x # _ \<Rightarrow> Some x)"
| "at0 (Some (JStr s)) = Inr (case s of [] \<Rightarrow> None | c # _ \<Rightarrow> Some (JStr [c]))"
| "at0 (Some (JObj kvs)) = Inr (map_of kvs (utf16 ''0''))"
| "at0 (Some v) = Inr None"

text \<open>Truthiness, as \<^verbatim>\<open>||\<close> tests it.\<close>

fun truthy :: "jsval \<Rightarrow> bool" where
  "truthy None = False"
| "truthy (Some JNull) = False"
| "truthy (Some (JBool b)) = b"
| "truthy (Some (JNum n)) = (n \<noteq> Finite 0)"
| "truthy (Some (JStr s)) = (s \<noteq> [])"
| "truthy (Some v) = True"

text \<open>\<^verbatim>\<open>v || null\<close>.\<close>

fun or_else_null :: "jsval \<Rightarrow> json" where
  "or_else_null None = JNull"
| "or_else_null (Some v) = (if truthy (Some v) then v else JNull)"

subsection \<open>Array.prototype.map\<close>

text \<open>
  \<open>traverse f xs\<close> applies the callback from left to right; the first exception it
  throws ends the call.
\<close>

fun traverse :: "('a \<Rightarrow> exn + 'b) \<Rightarrow> 'a list \<Rightarrow> exn + 'b list" where
  "traverse f [] = Inr []"
| "traverse f (x # xs) =
     (case f x of
        Inl e \<Rightarrow> Inl e
      | Inr y \<Rightarrow> (case traverse f xs of Inl e \<Rightarrow> Inl e | Inr ys \<Rightarrow> Inr (y # ys)))"

text \<open>
  \<^verbatim>\<open>v.map(f)\<close>: only an array has a callable \<^verbatim>\<open>map\<close>. On \<^verbatim>\<open>null\<close> and
  \<^verbatim>\<open>undefined\<close> the property read throws, on every other value \<^verbatim>\<open>v.map\<close> is not a
  function (a parsed object may own a \<^verbatim>\<open>map\<close> property, which is data); all are
  \<open>TypeError\<close>.
\<close>

fun array_map :: "(json \<Rightarrow> exn + 'b) \<Rightarrow> jsval \<Rightarrow> exn + 'b list" where
  "array_map f (Some (JArr xs)) = traverse f xs"
| "array_map f v = Inl TypeError"

subsection \<open>Rendering values as strings\<close>

text \<open>Decimal digits of a natural number, most significant first.\<close>

fun decimal :: "nat \<Rightarrow> js_string" where
  "decimal n =
     (if n < 10 then [word_of_nat (48 + n)]
      else decimal (n div 10) @ [word_of_nat (48 + n mod 10)])"

declare decimal.simps [simp del]

text \<open>
  \<^verbatim>\<open>Number.prototype.toString\<close> with radix 10. It writes the shortest digits that
  read back as the same double. For a whole number of magnitude at most \<open>2\<^sup>5\<^sup>3\<close> these
  are all its digits (both zeros give \<^verbatim>\<open>"0"\<close>): the doubles around it are at most 1
  apart, so no shorter digit string padded with zeros reads back as it. Every other
  finite double (a fraction; a whole number above \<open>2\<^sup>5\<^sup>3\<close>, whose last digits are
  written as zeros, \<open>2\<^sup>6\<^sup>4\<close> as \<^verbatim>\<open>"18446744073709552000"\<close>; exponent notation from
  \<open>10\<^sup>2\<^sup>1\<close> on) is rendered by the platform's algorithm, the parameter \<open>shortest\<close>.
\<close>

fun number_toString :: "(rat \<Rightarrow> js_string) \<Rightarrow> number \<Rightarrow> js_string" where
  "number_toString shortest PosInfinity = utf16 ''Infinity''"
| "number_toString shortest NegInfinity = utf16 ''-Infinity''"
| "number_toString shortest (Finite x) =
     (if x = of_int \<lfloor>x\<rfloor> \<and> \<bar>x\<bar> \<le> 2 ^ 53
      then (if x < 0 then utf16 ''-'' @ decimal (nat (- \<lfloor>x\<rfloor>)) else decimal (nat \<lfloor>x\<rfloor>))
      else shortest x)"

text \<open>
  \<open>ToString\<close> is the conversion a template literal \<^verbatim>\<open>`...${v}`\<close> applies. An array
  is joined with commas, \<^verbatim>\<open>null\<close> elements giving the empty string. An object
  gives \<^verbatim>\<open>"[object Object]"\<close>, unless it owns a \<^verbatim>\<open>toString\<close> property: that is
  data, not a function, and the conversion throws \<open>TypeError\<close>.
\<close>

fun ToString_json :: "(rat \<Rightarrow> js_string) \<Rightarrow> json \<Rightarrow> exn + js_string"
  and join :: "(rat \<Rightarrow> js_string) \<Rightarrow> json list \<Rightarrow> exn + js_string"
  and join_element :: "(rat \<Rightarrow> js_string) \<Rightarrow> json \<Rightarrow> exn + js_string"
where
  "ToString_json sh JNull = Inr (utf16 ''null'')"
| "ToString_json sh (JBool b) = Inr (if b then utf16 ''true'' else utf16 ''false'')"
| "ToString_json sh (JNum n) = Inr (number_toString sh n)"
| "ToString_json sh (JStr s) = Inr s"
| "ToString_json sh (JArr xs) = join sh xs"
| "ToString_json sh (JObj kvs) =
     (if map_of kvs (utf16 ''toString'') = None then Inr (utf16 ''[object Object]'')
      else Inl TypeError)"
| "join sh [] = Inr []"
| "join sh [x] = join_element sh x"
| "join sh (x # y # ys) =
     and_then (join_element sh x) (\<lambda>s.
     and_then (join sh (y # ys)) (\<lambda>r. Inr (s @ utf16 '','' @ r)))"
| "join_element sh JNull = Inr []"
| "join_element sh (JBool b) = ToString_json sh (JBool b)"
| "join_element sh (JNum n) = ToString_json sh (JNum n)"
| "join_element sh (JStr s) = ToString_json sh (JStr s)"
| "join_element sh (JArr xs) = ToString_json sh (JArr xs)"
| "join_element sh (JObj kvs) = ToString_json sh (JObj kvs)"

fun ToString :: "(rat \<Rightarrow> js_string) \<Rightarrow> jsval \<Rightarrow> exn + js_string" where
  "ToString sh None = Inr (utf16 ''undefined'')"
| "ToString sh (Some v) = ToString_json sh v"

text \<open>
  The method call \<^verbatim>\<open>v.toString()\<close>: \<open>TypeError\<close> on \<^verbatim>\<open>null\<close> and
  \<^verbatim>\<open>undefined\<close>; on every other value the built-in \<^verbatim>\<open>toString\<close> of its kind,
  which renders it as \<open>ToString\<close> does.
\<close>

fun toString :: "(rat \<Rightarrow> js_string) \<Rightarrow> jsval \<Rightarrow> exn + js_string" where
  "toString sh None = Inl TypeError"
| "toString sh (Some JNull) = Inl TypeError"
| "toString sh (Some v) = ToString_json sh v"

subsection \<open>encodeURIComponent\<close>

text \<open>
  The built-in \<^verbatim>\<open>encodeURIComponent\<close>, as ECMA-262 defines it (\<^verbatim>\<open>Encode\<close> with the
  unreserved set): letters, digits and \<^verbatim>\<open>- _ . ! ~ * ' ( )\<close> are copied; every other
  code point is written as the \<^verbatim>\<open>%XX\<close> escapes of its UTF-8 octets, a surrogate pair
  counting as one code point; a surrogate without its partner throws \<open>URIError\<close>.
\<close>

definition uriUnescaped :: "16 word \<Rightarrow> bool" where
  "uriUnescaped c =
     (let n = unat c in
        (65 \<le> n \<and> n \<le> 90) \<or> (97 \<le> n \<and> n \<le> 122) \<or> (48 \<le> n \<and> n \<le> 57)
        \<or> c \<in> set (utf16 ''-_.!~*'' @ [39] @ utf16 ''()''))"

definition is_lead_surrogate :: "16 word \<Rightarrow> bool" where
  "is_lead_surrogate c = (0xD800 \<le> unat c \<and> unat c \<le> 0xDBFF)"

definition is_trail_surrogate :: "16 word \<Rightarrow> bool" where
  "is_trail_surrogate c = (0xDC00 \<le> unat c \<and> unat c \<le> 0xDFFF)"

definition surrogate_pair :: "16 word \<Rightarrow> 16 word \<Rightarrow> nat" where
  "surrogate_pair hi lo = (unat hi - 0xD800) * 0x400 + (unat lo - 0xDC00) + 0x10000"

definition utf8 :: "nat \<Rightarrow> nat list" where
  "utf8 cp =
     (if cp < 0x80 then [cp]
      else if cp < 0x800 then [0xC0 + cp div 0x40, 0x80 + cp mod 0x40]
      else if cp < 0x10000 then
        [0xE0 + cp div 0x1000, 0x80 + cp div 0x40 mod 0x40, 0x80 + cp mod 0x40]
      else
        [0xF0 + cp div 0x40000, 0x80 + cp div 0x1000 mod 0x40,
         0x80 + cp div 0x40 mod 0x40, 0x80 + cp mod 0x40])"

definition hex_digit :: "nat \<Rightarrow> 16 word" where
  "hex_digit d = (if d < 10 then word_of_nat (48 + d) else word_of_nat (55 + d))"

definition percent :: "nat \<Rightarrow> js_string" where
  "percent octet = [37, hex_digit (octet div 16 mod 16), hex_digit (octet mod 16)]"

definition prepend :: "js_string \<Rightarrow> exn + js_string \<Rightarrow> exn + js_string" where
  "prepend p r = (case r of Inl e \<Rightarrow> Inl e | Inr s \<Rightarrow> Inr (p @ s))"

fun encodeURIComponent :: "js_string \<Rightarrow> exn + js_string" where
  "encodeURIComponent [] = Inr []"
| "encodeURIComponent (c # cs) =
     (if uriUnescaped c then prepend [c] (encodeURIComponent cs)
      else if is_trail_surrogate c then Inl URIError
      else if \<not> is_lead_surrogate c then
        prepend (concat (map percent (utf8 (unat c)))) (encodeURIComponent cs)
      else
        (case cs of
           [] \<Rightarrow> Inl URIError
         | d # ds \<Rightarrow>
             if is_trail_surrogate d then
               prepend (concat (map percent (utf8 (surrogate_pair c d))))
                 (encodeURIComponent ds)
             else Inl URIError))"

declare encodeURIComponent.simps [simp del]

section \<open>The platform around the client\<close>

text \<open>
  A request as \<^verbatim>\<open>fetch(url, init)\<close> receives it; \<open>revalidate\<close> is the
  \<^verbatim>\<open>next: { revalidate: 60 }\<close> hint, which only the trending request carries. Of a
  response the client reads \<^verbatim>\<open>res.ok\<close> and awaits \<^verbatim>\<open>res.json()\<close>, which either
  yields the parsed body or rejects.
\<close>

record request =
  url :: js_string
  headers :: "(js_string \<times> js_string) list"
  revalidate :: "nat option"

record response =
  ok :: bool
  json :: "exn + json"

text \<open>
  What the client takes from its surroundings: the network (\<open>fetch\<close> answers a request
  with a response or rejects), the environment variable
  \<^verbatim>\<open>process.env.NEXT_PUBLIC_TMDB_ACCESS_TOKEN\<close> (a string or \<^verbatim>\<open>undefined\<close>), and the
  platform's shortest rendering of a double (see \<open>number_toString\<close>).
\<close>

record runtime =
  fetch :: "request \<Rightarrow> exn + response"
  NEXT_PUBLIC_TMDB_ACCESS_TOKEN :: "js_string option"
  shortest :: "rat \<Rightarrow> js_string"

text \<open>
  The value an \<^verbatim>\<open>async\<close> function settles with (\<open>Inl\<close>: the promise rejects, the
  exception reaches the caller) and the lines it wrote with \<^verbatim>\<open>console.error\<close>.
\<close>

record 'a outcome =
  returned :: "exn + 'a"
  console :: "(js_string \<times> exn) list"

definition authorization :: "runtime \<Rightarrow> js_string \<times> js_string" where
  "authorization rt =
     (utf16 ''Authorization'',
      utf16 ''Bearer '' @
        (case NEXT_PUBLIC_TMDB_ACCESS_TOKEN rt of None \<Rightarrow> utf16 ''undefined'' | Some t \<Rightarrow> t))"

section \<open>The local shapes\<close>

text \<open>
  The interfaces \<^verbatim>\<open>Movie\<close>, \<^verbatim>\<open>MovieDetail\<close>, \<^verbatim>\<open>Cast\<close> and \<^verbatim>\<open>Review\<close>. A field that
  the source computes as a string is a \<open>js_string\<close>; a field that it copies from the
  upstream object holds whatever was there, \<^verbatim>\<open>undefined\<close> included.
\<close>

record Movie =
  movie_id :: js_string
  movie_title :: jsval
  movie_image :: js_string
  movie_rating :: jsval

record MovieDetail =
  detail_id :: js_string
  detail_title :: jsval
  detail_image :: js_string
  detail_rating :: jsval
  detail_overview :: jsval
  detail_releaseDate :: jsval
  detail_runtime :: jsval
  detail_genres :: jsval
  detail_spoken_languages :: jsval

record Cast =
  cast_id :: js_string
  cast_profile_path :: jsval
  cast_name :: jsval
  cast_character :: jsval
  cast_known_for_department :: jsval

record Review =
  review_id :: jsval
  review_author :: jsval
  review_content :: jsval
  review_created_at :: jsval
  review_url :: jsval
  review_rating :: json
  review_avatar_path :: json

section \<open>The mapping callbacks\<close>

text \<open>
  The arrow function of \<^verbatim>\<open>fetchMoviesRecommendation\<close>, \<^verbatim>\<open>fetchTrendingMovies\<close> and
  \<^verbatim>\<open>searchMovies\<close> (the same text in all three):
  \<^verbatim>\<open>(movie) => ({ id: movie.id.toString(), title: movie.title,
     image: `https://image.tmdb.org/t/p/w500${movie.poster_path}`,
     rating: movie.vote_average })\<close>
\<close>

definition image_prefix :: js_string where
  "image_prefix = utf16 ''https://image.tmdb.org/t/p/w500''"

definition toMovie :: "runtime \<Rightarrow> json \<Rightarrow> exn + Movie" where
  "toMovie rt movie =
     and_then (get (Some movie) (utf16 ''id'')) (\<lambda>i.
     and_then (toString (shortest rt) i) (\<lambda>id_string.
     and_then (get (Some movie) (utf16 ''title'')) (\<lambda>t.
     and_then (get (Some movie) (utf16 ''poster_path'')) (\<lambda>p.
     and_then (ToString (shortest rt) p) (\<lambda>fragment.
     and_then (get (Some movie) (utf16 ''vote_average'')) (\<lambda>v.
       Inr \<lparr>movie_id = id_string, movie_title = t,
            movie_image = image_prefix @ fragment, movie_rating = v\<rparr>))))))"

text \<open>The object literal of \<^verbatim>\<open>fetchMovieDetail\<close>, built from the parsed body.\<close>

definition toMovieDetail :: "runtime \<Rightarrow> json \<Rightarrow> exn + MovieDetail" where
  "toMovieDetail rt data =
     and_then (get (Some data) (utf16 ''id'')) (\<lambda>i.
     and_then (toString (shortest rt) i) (\<lambda>id_string.
     and_then (get (Some data) (utf16 ''title'')) (\<lambda>t.
     and_then (get (Some data) (utf16 ''poster_path'')) (\<lambda>p.
     and_then (ToString (shortest rt) p) (\<lambda>fragment.
     and_then (get (Some data) (utf16 ''vote_average'')) (\<lambda>v.
     and_then (get (Some data) (utf16 ''overview'')) (\<lambda>ov.
     and_then (get (Some data) (utf16 ''release_date'')) (\<lambda>rd.
     and_then (get (Some data) (utf16 ''runtime'')) (\<lambda>ru.
     and_then (get (Some data) (utf16 ''genres'')) (\<lambda>g.
     and_then (get (Some data) (utf16 ''spoken_languages'')) (\<lambda>sl.
       Inr \<lparr>detail_id = id_string, detail_title = t,
            detail_image = image_prefix @ fragment, detail_rating = v,
            detail_overview = ov, detail_releaseDate = rd, detail_runtime = ru,
            detail_genres = g, detail_spoken_languages = sl\<rparr>)))))))))))"

text \<open>
  The arrow function of \<^verbatim>\<open>fetchMovieCredits\<close>:
  \<^verbatim>\<open>(cast) => ({ id: cast.id.toString(), profile_path: cast.profile_path,
     name: cast.name, character: cast.character,
     known_for_department: cast.known_for_department })\<close>
\<close>

definition toCast :: "runtime \<Rightarrow> json \<Rightarrow> exn + Cast" where
  "toCast rt cast =
     and_then (get (Some cast) (utf16 ''id'')) (\<lambda>i.
     and_then (toString (shortest rt) i) (\<lambda>id_string.
     and_then (get (Some cast) (utf16 ''profile_path'')) (\<lambda>pp.
     and_then (get (Some cast) (utf16 ''name'')) (\<lambda>n.
     and_then (get (Some cast) (utf16 ''character'')) (\<lambda>ch.
     and_then (get (Some cast) (utf16 ''known_for_department'')) (\<lambda>k.
       Inr \<lparr>cast_id = id_string, cast_profile_path = pp, cast_name = n,
            cast_character = ch, cast_known_for_department = k\<rparr>))))))"

text \<open>
  The arrow function of \<^verbatim>\<open>fetchMovieReviews\<close>:
  \<^verbatim>\<open>(review) => ({ id: review.id, author: review.author, content: review.content,
     created_at: review.created_at, url: review.url,
     rating: review.author_details?.rating ?? null,
     avatar_path: review.author_details?.avatar_path ?? null })\<close>
\<close>

definition toReview :: "json \<Rightarrow> exn + Review" where
  "toReview review =
     and_then (get (Some review) (utf16 ''id'')) (\<lambda>i.
     and_then (get (Some review) (utf16 ''author'')) (\<lambda>a.
     and_then (get (Some review) (utf16 ''content'')) (\<lambda>c.
     and_then (get (Some review) (utf16 ''created_at'')) (\<lambda>ca.
     and_then (get (Some review) (utf16 ''url'')) (\<lambda>u.
     and_then (get (Some review) (utf16 ''author_details'')) (\<lambda>ad.
     and_then (get_optional ad (utf16 ''rating'')) (\<lambda>r.
     and_then (get (Some review) (utf16 ''author_details'')) (\<lambda>ad'.
     and_then (get_optional ad' (utf16 ''avatar_path'')) (\<lambda>ap.
       Inr \<lparr>review_id = i, review_author = a, review_content = c,
            review_created_at = ca, review_url = u,
            review_rating = or_null r, review_avatar_path = or_null ap\<rparr>)))))))))"

section \<open>Mapping a parsed body\<close>

text \<open>
  \<^verbatim>\<open>data.results.map((movie) => ...)\<close>, the \<^verbatim>\<open>return\<close> expression of
  \<^verbatim>\<open>fetchMoviesRecommendation\<close>, \<^verbatim>\<open>fetchTrendingMovies\<close> and \<^verbatim>\<open>searchMovies\<close>.
\<close>

definition movie_results :: "runtime \<Rightarrow> json \<Rightarrow> exn + Movie list" where
  "movie_results rt data =
     and_then (get (Some data) (utf16 ''results'')) (\<lambda>results.
       array_map (toMovie rt) results)"

text \<open>\<^verbatim>\<open>data.cast.map((cast) => ...)\<close> of \<^verbatim>\<open>fetchMovieCredits\<close>.\<close>

definition cast_members :: "runtime \<Rightarrow> json \<Rightarrow> exn + Cast list" where
  "cast_members rt data =
     and_then (get (Some data) (utf16 ''cast'')) (\<lambda>cast.
       array_map (toCast rt) cast)"

text \<open>
  \<^verbatim>\<open>data.results[0] || null\<close> of \<^verbatim>\<open>fetchMovieTrailer\<close>: the element itself, not a
  copy of its \<^verbatim>\<open>key\<close> and \<^verbatim>\<open>site\<close>; \<open>JNull\<close> is \<^verbatim>\<open>null\<close>.
\<close>

definition first_result :: "json \<Rightarrow> exn + json" where
  "first_result data =
     and_then (get (Some data) (utf16 ''results'')) (\<lambda>results.
     and_then (at0 results) (\<lambda>first.
       Inr (or_else_null first)))"

text \<open>\<^verbatim>\<open>data.results.map((review: TMDBReview) => ...)\<close> of \<^verbatim>\<open>fetchMovieReviews\<close>.\<close>

definition review_results :: "json \<Rightarrow> exn + Review list" where
  "review_results data =
     and_then (get (Some data) (utf16 ''results'')) (\<lambda>results.
       array_map toReview results)"

section \<open>The seven operations\<close>

text \<open>
  Each operation awaits one \<^verbatim>\<open>fetch\<close>, throws an \<^verbatim>\<open>Error\<close> of its own when
  \<^verbatim>\<open>res.ok\<close> is false, awaits \<^verbatim>\<open>res.json()\<close> and maps the body, all inside one
  \<^verbatim>\<open>try\<close> block. For each operation the request, the \<^verbatim>\<open>try\<close> block and the
  whole function are separate definitions.
\<close>

definition recommendation_request :: "runtime \<Rightarrow> js_string \<Rightarrow> request" where
  "recommendation_request rt movieId =
     \<lparr>url = utf16 ''https://api.themoviedb.org/3/movie/'' @ movieId @ utf16 ''/recommendations'',
      headers = [authorization rt],
      revalidate = None\<rparr>"

text \<open>The \<^verbatim>\<open>try\<close> block of \<^verbatim>\<open>fetchMoviesRecommendation\<close> (lines 103-124).\<close>

definition fetchMoviesRecommendation_try :: "runtime \<Rightarrow> js_string \<Rightarrow> exn + Movie list" where
  "fetchMoviesRecommendation_try rt movieId =
     and_then (fetch rt (recommendation_request rt movieId)) (\<lambda>res.
       if \<not> ok res then Inl (Error (utf16 ''Failed to fetch movies recommendation''))
       else and_then (json res) (\<lambda>data. movie_results rt data))"

text \<open>\<^verbatim>\<open>fetchMoviesRecommendation\<close>: the \<^verbatim>\<open>catch\<close> clause logs and returns \<^verbatim>\<open>[]\<close>.\<close>

definition fetchMoviesRecommendation :: "runtime \<Rightarrow> js_string \<Rightarrow> Movie list outcome" where
  "fetchMoviesRecommendation rt movieId =
     (case fetchMoviesRecommendation_try rt movieId of
        Inr value \<Rightarrow> \<lparr>returned = Inr value, console = []\<rparr>
      | Inl error \<Rightarrow>
          \<lparr>returned = Inr [],
           console = [(utf16 ''Error fetching movies recommendation:'', error)]\<rparr>)"

definition trending_request :: "runtime \<Rightarrow> request" where
  "trending_request rt =
     \<lparr>url = utf16 ''https://api.themoviedb.org/3/trending/movie/week'',
      headers = [authorization rt, (utf16 ''Content-Type'', utf16 ''application/json'')],
      revalidate = Some 60\<rparr>"

text \<open>The \<^verbatim>\<open>try\<close> block of \<^verbatim>\<open>fetchTrendingMovies\<close> (lines 132-155).\<close>

definition fetchTrendingMovies_try :: "runtime \<Rightarrow> exn + Movie list" where
  "fetchTrendingMovies_try rt =
     and_then (fetch rt (trending_request rt)) (\<lambda>res.
       if \<not> ok res then Inl (Error (utf16 ''Failed to fetch trending movies''))
       else and_then (json res) (\<lambda>data. movie_results rt data))"

text \<open>\<^verbatim>\<open>fetchTrendingMovies\<close>: the \<^verbatim>\<open>catch\<close> clause logs and returns \<^verbatim>\<open>[]\<close>.\<close>

definition fetchTrendingMovies :: "runtime \<Rightarrow> Movie list outcome" where
  "fetchTrendingMovies rt =
     (case fetchTrendingMovies_try rt of
        Inr value \<Rightarrow> \<lparr>returned = Inr value, console = []\<rparr>
      | Inl error \<Rightarrow>
          \<lparr>returned = Inr [],
           console = [(utf16 ''Error fetching trending movies:'', error)]\<rparr>)"

definition detail_request :: "runtime \<Rightarrow> js_string \<Rightarrow> request" where
  "detail_request rt movieId =
     \<lparr>url = utf16 ''https://api.themoviedb.org/3/movie/'' @ movieId,
      headers = [authorization rt],
      revalidate = None\<rparr>"

text \<open>The \<^verbatim>\<open>try\<close> block of \<^verbatim>\<open>fetchMovieDetail\<close> (lines 163-184).\<close>

definition fetchMovieDetail_try :: "runtime \<Rightarrow> js_string \<Rightarrow> exn + MovieDetail" where
  "fetchMovieDetail_try rt movieId =
     and_then (fetch rt (detail_request rt movieId)) (\<lambda>res.
       if \<not> ok res then Inl (Error (utf16 ''Failed to fetch movie detail''))
       else and_then (json res) (\<lambda>data. toMovieDetail rt data))"

text \<open>\<^verbatim>\<open>fetchMovieDetail\<close>: the \<^verbatim>\<open>catch\<close> clause logs and throws the exception again.\<close>

definition fetchMovieDetail :: "runtime \<Rightarrow> js_string \<Rightarrow> MovieDetail outcome" where
  "fetchMovieDetail rt movieId =
     (case fetchMovieDetail_try rt movieId of
        Inr value \<Rightarrow> \<lparr>returned = Inr value, console = []\<rparr>
      | Inl error \<Rightarrow>
          \<lparr>returned = Inl error,
           console = [(utf16 ''Error fetching movie detail:'', error)]\<rparr>)"

definition credits_request :: "runtime \<Rightarrow> js_string \<Rightarrow> request" where
  "credits_request rt movieId =
     \<lparr>url = utf16 ''https://api.themoviedb.org/3/movie/'' @ movieId @ utf16 ''/credits'',
      headers = [authorization rt],
      revalidate = None\<rparr>"

text \<open>The \<^verbatim>\<open>try\<close> block of \<^verbatim>\<open>fetchMovieCredits\<close> (lines 192-211).\<close>

definition fetchMovieCredits_try :: "runtime \<Rightarrow> js_string \<Rightarrow> exn + Cast list" where
  "fetchMovieCredits_try rt movieId =
     and_then (fetch rt (credits_request rt movieId)) (\<lambda>res.
       if \<not> ok res then Inl (Error (utf16 ''Failed to fetch movie credits''))
       else and_then (json res) (\<lambda>data. cast_members rt data))"

text \<open>\<^verbatim>\<open>fetchMovieCredits\<close>: the \<^verbatim>\<open>catch\<close> clause logs and returns \<^verbatim>\<open>[]\<close>.\<close>

definition fetchMovieCredits :: "runtime \<Rightarrow> js_string \<Rightarrow> Cast list outcome" where
  "fetchMovieCredits rt movieId =
     (case fetchMovieCredits_try rt movieId of
        Inr value \<Rightarrow> \<lparr>returned = Inr value, console = []\<rparr>
      | Inl error \<Rightarrow>
          \<lparr>returned = Inr [],
           console = [(utf16 ''Error fetching movie credits:'', error)]\<rparr>)"

definition trailer_request :: "runtime \<Rightarrow> js_string \<Rightarrow> request" where
  "trailer_request rt movieId =
     \<lparr>url = utf16 ''https://api.themoviedb.org/3/movie/'' @ movieId @ utf16 ''/videos'',
      headers = [authorization rt],
      revalidate = None\<rparr>"

text \<open>The \<^verbatim>\<open>try\<close> block of \<^verbatim>\<open>fetchMovieTrailer\<close> (lines 221-234).\<close>

definition fetchMovieTrailer_try :: "runtime \<Rightarrow> js_string \<Rightarrow> exn + json" where
  "fetchMovieTrailer_try rt movieId =
     and_then (fetch rt (trailer_request rt movieId)) (\<lambda>res.
       if \<not> ok res then Inl (Error (utf16 ''Failed to fetch movie trailer''))
       else and_then (json res) (\<lambda>data. first_result data))"

text \<open>\<^verbatim>\<open>fetchMovieTrailer\<close>: the \<^verbatim>\<open>catch\<close> clause logs and returns \<^verbatim>\<open>null\<close>.\<close>

definition fetchMovieTrailer :: "runtime \<Rightarrow> js_string \<Rightarrow> json outcome" where
  "fetchMovieTrailer rt movieId =
     (case fetchMovieTrailer_try rt movieId of
        Inr value \<Rightarrow> \<lparr>returned = Inr value, console = []\<rparr>
      | Inl error \<Rightarrow>
          \<lparr>returned = Inr JNull,
           console = [(utf16 ''Error fetching movie trailer:'', error)]\<rparr>)"

definition reviews_request :: "runtime \<Rightarrow> js_string \<Rightarrow> request" where
  "reviews_request rt movieId =
     \<lparr>url = utf16 ''https://api.themoviedb.org/3/movie/'' @ movieId @ utf16 ''/reviews'',
      headers = [authorization rt],
      revalidate = None\<rparr>"

text \<open>The \<^verbatim>\<open>try\<close> block of \<^verbatim>\<open>fetchMovieReviews\<close> (lines 242-263).\<close>

definition fetchMovieReviews_try :: "runtime \<Rightarrow> js_string \<Rightarrow> exn + Review list" where
  "fetchMovieReviews_try rt movieId =
     and_then (fetch rt (reviews_request rt movieId)) (\<lambda>res.
       if \<not> ok res then Inl (Error (utf16 ''Failed to fetch movie reviews''))
       else and_then (json res) (\<lambda>data. review_results data))"

text \<open>\<^verbatim>\<open>fetchMovieReviews\<close>: the \<^verbatim>\<open>catch\<close> clause logs and returns \<^verbatim>\<open>[]\<close>.\<close>

definition fetchMovieReviews :: "runtime \<Rightarrow> js_string \<Rightarrow> Review list outcome" where
  "fetchMovieReviews rt movieId =
     (case fetchMovieReviews_try rt movieId of
        Inr value \<Rightarrow> \<lparr>returned = Inr value, console = []\<rparr>
      | Inl error \<Rightarrow>
          \<lparr>returned = Inr [],
           console = [(utf16 ''Error fetching movie reviews:'', error)]\<rparr>)"

text \<open>
  The request of \<^verbatim>\<open>searchMovies\<close>. Its URL is a template literal that calls
  \<^verbatim>\<open>encodeURIComponent(query)\<close>, inside the \<^verbatim>\<open>try\<close> block: when that throws, no
  request is made.
\<close>

definition search_request :: "runtime \<Rightarrow> js_string \<Rightarrow> exn + request" where
  "search_request rt query =
     and_then (encodeURIComponent query) (\<lambda>encoded.
       Inr \<lparr>url = utf16 ''https://api.themoviedb.org/3/search/movie?query='' @ encoded
                  @ utf16 ''&language=en-US'',
            headers = [authorization rt],
            revalidate = None\<rparr>)"

text \<open>
  The message of the \<^verbatim>\<open>Error\<close> that \<^verbatim>\<open>searchMovies\<close> throws on a response that is
  not ok: a Korean sentence, here as its UTF-16 code units.
\<close>

definition search_failed_message :: js_string where
  "search_failed_message =
     [0xC601, 0xD654, 0x20, 0xAC80, 0xC0C9, 0xC5D0, 0x20,
      0xC2E4, 0xD328, 0xD588, 0xC2B5, 0xB2C8, 0xB2E4, 0x2E]"

text \<open>The \<^verbatim>\<open>try\<close> block of \<^verbatim>\<open>searchMovies\<close> (lines 271-293).\<close>

definition searchMovies_try :: "runtime \<Rightarrow> js_string \<Rightarrow> exn + Movie list" where
  "searchMovies_try rt query =
     and_then (search_request rt query) (\<lambda>req.
     and_then (fetch rt req) (\<lambda>res.
       if \<not> ok res then Inl (Error search_failed_message)
       else and_then (json res) (\<lambda>data. movie_results rt data)))"

text \<open>\<^verbatim>\<open>searchMovies\<close>: the \<^verbatim>\<open>catch\<close> clause logs and returns \<^verbatim>\<open>[]\<close>.\<close>

definition searchMovies :: "runtime \<Rightarrow> js_string \<Rightarrow> Movie list outcome" where
  "searchMovies rt query =
     (case searchMovies_try rt query of
        Inr value \<Rightarrow> \<lparr>returned = Inr value, console = []\<rparr>
      | Inl error \<Rightarrow>
          \<lparr>returned = Inr [],
           console = [(utf16 ''Error searching movies:'', error)]\<rparr>)"

section \<open>Vocabulary of the properties\<close>

text \<open>
  A \<^emph>\<open>successful upstream response\<close> to a request is one that arrives, is ok and
  parses: \<open>upstream_body\<close> is its parsed body, \<open>upstream_list\<close> the array the body
  holds under a key (\<^verbatim>\<open>results\<close> or \<^verbatim>\<open>cast\<close>).
\<close>

definition upstream_body :: "runtime \<Rightarrow> request \<Rightarrow> json option" where
  "upstream_body rt req =
     (case fetch rt req of
        Inl e \<Rightarrow> None
      | Inr res \<Rightarrow>
          if ok res then (case json res of Inl e \<Rightarrow> None | Inr data \<Rightarrow> Some data)
          else None)"

definition upstream_list :: "runtime \<Rightarrow> request \<Rightarrow> js_string \<Rightarrow> json list option" where
  "upstream_list rt req key =
     (case upstream_body rt req of
        Some (JObj kvs) \<Rightarrow> (case map_of kvs key of Some (JArr xs) \<Rightarrow> Some xs | _ \<Rightarrow> None)
      | _ \<Rightarrow> None)"

text \<open>\<open>ys\<close> holds, item by item and in the same order, what \<open>f\<close> maps \<open>xs\<close> to.\<close>

definition mapped_in_order :: "('a \<Rightarrow> exn + 'b) \<Rightarrow> 'a list \<Rightarrow> 'b list \<Rightarrow> bool" where
  "mapped_in_order f xs ys \<longleftrightarrow>
     length ys = length xs \<and> (\<forall>i<length xs. f (xs ! i) = Inr (ys ! i))"

text \<open>
  The ways an operation can fail once its request is built: \<^verbatim>\<open>fetch\<close> rejects, the
  status is not a success, \<^verbatim>\<open>res.json()\<close> rejects, or the mapping of the body throws.
\<close>

definition failure :: "runtime \<Rightarrow> request \<Rightarrow> (json \<Rightarrow> exn + 'a) \<Rightarrow> bool" where
  "failure rt req mapping =
     (case fetch rt req of
        Inl e \<Rightarrow> True
      | Inr res \<Rightarrow>
          \<not> ok res \<or> (case json res of Inl e \<Rightarrow> True | Inr data \<Rightarrow> isl (mapping data)))"

text \<open>
  Two of these ways on their own: a response whose status is not a success, and an ok
  response whose body is malformed or unexpected, that is, \<^verbatim>\<open>res.json()\<close> rejects or
  the mapping throws on a field access.
\<close>

definition non_success :: "runtime \<Rightarrow> request \<Rightarrow> bool" where
  "non_success rt req = (case fetch rt req of Inl e \<Rightarrow> False | Inr res \<Rightarrow> \<not> ok res)"

definition malformed :: "runtime \<Rightarrow> request \<Rightarrow> (json \<Rightarrow> exn + 'a) \<Rightarrow> bool" where
  "malformed rt req mapping =
     (case fetch rt req of
        Inl e \<Rightarrow> False
      | Inr res \<Rightarrow>
          ok res \<and> (case json res of Inl e \<Rightarrow> True | Inr data \<Rightarrow> isl (mapping data)))"


text \<open>
  What the id of a movie or cast member is, given the upstream item: when the upstream
  \<^verbatim>\<open>id\<close> is a number, its \<^verbatim>\<open>toString()\<close>.
\<close>

definition id_of_number :: "runtime \<Rightarrow> json \<Rightarrow> js_string \<Rightarrow> bool" where
  "id_of_number rt x id_string =
     (case get (Some x) (utf16 ''id'') of
        Inr (Some (JNum n)) \<Rightarrow> id_string = number_toString (shortest rt) n
      | _ \<Rightarrow> True)"

text \<open>The number that a string of decimal digits denotes.\<close>

definition digits_value :: "js_string \<Rightarrow> nat" where
  "digits_value s = foldl (\<lambda>a c. 10 * a + (unat c - 48)) 0 s"

text \<open>
  A string is well formed when every surrogate in it is half of a pair
  (\<^verbatim>\<open>String.prototype.isWellFormed\<close>).
\<close>

fun well_formed :: "js_string \<Rightarrow> bool" where
  "well_formed [] = True"
| "well_formed (c # cs) =
     (if is_lead_surrogate c then
        (case cs of [] \<Rightarrow> False | d # ds \<Rightarrow> is_trail_surrogate d \<and> well_formed ds)
      else \<not> is_trail_surrogate c \<and> well_formed cs)"

text \<open>
  \<open>ys\<close> has as many items as \<open>xs\<close>, and the \<open>i\<close>-th item of \<open>ys\<close> stands in the relation
  \<open>R\<close> to the \<open>i\<close>-th item of \<open>xs\<close>.
\<close>

definition itemwise :: "('a \<Rightarrow> 'b \<Rightarrow> bool) \<Rightarrow> 'a list \<Rightarrow> 'b list \<Rightarrow> bool" where
  "itemwise R xs ys \<longleftrightarrow> length ys = length xs \<and> (\<forall>i<length xs. R (xs ! i) (ys ! i))"

text \<open>
  The shape of an upstream item, as far as the mapping depends on it. A movie
  (\<^verbatim>\<open>TMDBMovie\<close>) has a numeric \<^verbatim>\<open>id\<close>, and a \<^verbatim>\<open>poster_path\<close> that is a string or, as
  the upstream sends it for a movie without a poster, \<^verbatim>\<open>null\<close>. A cast member has an
  \<^verbatim>\<open>id\<close> that is a number (what the upstream sends) or a string (what the interface
  \<^verbatim>\<open>Cast\<close> declares). A review (\<^verbatim>\<open>TMDBReview\<close>) is an object.
\<close>

definition movie_shaped :: "json \<Rightarrow> bool" where
  "movie_shaped x =
     (case get (Some x) (utf16 ''id'') of
        Inr (Some (JNum n)) \<Rightarrow>
          (case get (Some x) (utf16 ''poster_path'') of
             Inr (Some (JStr fragment)) \<Rightarrow> True
           | Inr (Some JNull) \<Rightarrow> True
           | _ \<Rightarrow> False)
      | _ \<Rightarrow> False)"

definition cast_shaped :: "json \<Rightarrow> bool" where
  "cast_shaped x =
     (case get (Some x) (utf16 ''id'') of
        Inr (Some (JNum n)) \<Rightarrow> True
      | Inr (Some (JStr s)) \<Rightarrow> True
      | _ \<Rightarrow> False)"

definition review_shaped :: "json \<Rightarrow> bool" where
  "review_shaped x = (case x of JObj kvs \<Rightarrow> True | _ \<Rightarrow> False)"

text \<open>
  The mapping of the fields, written from the table of local shapes in the
  specification and not from the callbacks. A movie summary: the identifier as a
  string, the title, the image URL (the fixed prefix and the upstream path fragment),
  the average rating as sent.
\<close>

definition movie_of_item :: "runtime \<Rightarrow> json \<Rightarrow> Movie \<Rightarrow> bool" where
  "movie_of_item rt x m \<longleftrightarrow>
     (case get (Some x) (utf16 ''id'') of
        Inr (Some (JNum n)) \<Rightarrow> movie_id m = number_toString (shortest rt) n
      | _ \<Rightarrow> False)
     \<and> get (Some x) (utf16 ''title'') = Inr (movie_title m)
     \<and> (case get (Some x) (utf16 ''poster_path'') of
          Inr (Some (JStr fragment)) \<Rightarrow> movie_image m = image_prefix @ fragment
        | Inr (Some JNull) \<Rightarrow> movie_image m = image_prefix @ utf16 ''null''
        | _ \<Rightarrow> False)
     \<and> get (Some x) (utf16 ''vote_average'') = Inr (movie_rating m)"

text \<open>
  A cast member: the identifier as a string, and profile image path, name, character
  name and known-for department as sent.
\<close>

definition cast_of_item :: "runtime \<Rightarrow> json \<Rightarrow> Cast \<Rightarrow> bool" where
  "cast_of_item rt x c \<longleftrightarrow>
     (case get (Some x) (utf16 ''id'') of
        Inr (Some (JNum n)) \<Rightarrow> cast_id c = number_toString (shortest rt) n
      | Inr (Some (JStr s)) \<Rightarrow> cast_id c = s
      | _ \<Rightarrow> False)
     \<and> get (Some x) (utf16 ''profile_path'') = Inr (cast_profile_path c)
     \<and> get (Some x) (utf16 ''name'') = Inr (cast_name c)
     \<and> get (Some x) (utf16 ''character'') = Inr (cast_character c)
     \<and> get (Some x) (utf16 ''known_for_department'') = Inr (cast_known_for_department c)"

text \<open>
  A review: identifier, author, content, creation timestamp and source URL as sent;
  rating and avatar path are those of the nested \<^verbatim>\<open>author_details\<close> object, and
  \<^verbatim>\<open>null\<close> when there is no such object or it omits them.
\<close>

definition author_detail :: "json \<Rightarrow> js_string \<Rightarrow> json" where
  "author_detail x k =
     (case get (Some x) (utf16 ''author_details'') of
        Inr (Some (JObj details)) \<Rightarrow> (case map_of details k of Some v \<Rightarrow> v | None \<Rightarrow> JNull)
      | _ \<Rightarrow> JNull)"

definition review_of_item :: "json \<Rightarrow> Review \<Rightarrow> bool" where
  "review_of_item x r \<longleftrightarrow>
     get (Some x) (utf16 ''id'') = Inr (review_id r)
     \<and> get (Some x) (utf16 ''author'') = Inr (review_author r)
     \<and> get (Some x) (utf16 ''content'') = Inr (review_content r)
     \<and> get (Some x) (utf16 ''created_at'') = Inr (review_created_at r)
     \<and> get (Some x) (utf16 ''url'') = Inr (review_url r)
     \<and> review_rating r = author_detail x (utf16 ''rating'')
     \<and> review_avatar_path r = author_detail x (utf16 ''avatar_path'')"

section \<open>Example surroundings\<close>

text \<open>
  A runtime that answers every request in the same way, for the concrete instances of
  the theorems below. The instances render only whole numbers as strings, so
  \<open>shortest\<close> is never applied in them; it is set to the constant empty string.
\<close>

definition example_runtime :: "exn + response \<Rightarrow> runtime" where
  "example_runtime answer =
     \<lparr>fetch = (\<lambda>req. answer),
      NEXT_PUBLIC_TMDB_ACCESS_TOKEN = Some (utf16 ''secret''),
      shortest = (\<lambda>x. [])\<rparr>"

text \<open>An ok response with a given parsed body, and TMDB's answer for an unknown id.\<close>

definition ok_with :: "json \<Rightarrow> exn + response" where
  "ok_with body = Inr \<lparr>ok = True, json = Inr body\<rparr>"

definition not_found :: "exn + response" where
  "not_found =
     Inr \<lparr>ok = False,
          json = Inr (JObj [(utf16 ''success'', JBool False),
                            (utf16 ''status_code'', JNum (Finite 34))])\<rparr>"

text \<open>A body that parses but has none of the expected fields.\<close>

definition unexpected_body :: json where
  "unexpected_body = JObj [(utf16 ''success'', JBool False)]"

text \<open>A body of \<^verbatim>\<open>/movie/{id}/videos\<close> with two entries.\<close>

definition videos_body :: json where
  "videos_body =
     JObj [(utf16 ''id'', JNum (Finite 603)),
           (utf16 ''results'',
            JArr [JObj [(utf16 ''key'', JStr (utf16 ''vKQi3bBA1y8'')),
                        (utf16 ''site'', JStr (utf16 ''YouTube''))],
                  JObj [(utf16 ''key'', JStr (utf16 ''m8e-FF8MsqU'')),
                        (utf16 ''site'', JStr (utf16 ''Vimeo''))]])]"

text \<open>A body of \<^verbatim>\<open>/movie/{id}/videos\<close> without entries.\<close>

definition no_videos_body :: json where
  "no_videos_body = JObj [(utf16 ''id'', JNum (Finite 603)), (utf16 ''results'', JArr [])]"

text \<open>Two entries of a movie list, the second without a poster, and a list body.\<close>

definition the_matrix :: json where
  "the_matrix =
     JObj [(utf16 ''id'', JNum (Finite 603)),
           (utf16 ''title'', JStr (utf16 ''The Matrix'')),
           (utf16 ''poster_path'', JStr (utf16 ''/matrix.jpg'')),
           (utf16 ''vote_average'', JNum (Finite (41 / 5)))]"

definition no_poster :: json where
  "no_poster =
     JObj [(utf16 ''id'', JNum (Finite 604)),
           (utf16 ''title'', JStr (utf16 ''The Matrix Reloaded'')),
           (utf16 ''poster_path'', JNull),
           (utf16 ''vote_average'', JNum (Finite 7))]"

definition movies_body :: json where
  "movies_body =
     JObj [(utf16 ''page'', JNum (Finite 1)),
           (utf16 ''results'', JArr [the_matrix, no_poster])]"

text \<open>A body of \<^verbatim>\<open>/movie/{id}/credits\<close>.\<close>

definition neo :: json where
  "neo =
     JObj [(utf16 ''id'', JNum (Finite 6384)),
           (utf16 ''name'', JStr (utf16 ''Keanu Reeves'')),
           (utf16 ''character'', JStr (utf16 ''Neo'')),
           (utf16 ''profile_path'', JStr (utf16 ''/keanu.jpg'')),
           (utf16 ''known_for_department'', JStr (utf16 ''Acting''))]"

definition credits_body :: json where
  "credits_body = JObj [(utf16 ''id'', JNum (Finite 603)), (utf16 ''cast'', JArr [neo])]"

text \<open>
  A body of \<^verbatim>\<open>/movie/{id}/reviews\<close>: one review with \<^verbatim>\<open>author_details\<close>, one without.
\<close>

definition rated_review :: json where
  "rated_review =
     JObj [(utf16 ''id'', JStr (utf16 ''5f0e1a'')),
           (utf16 ''author'', JStr (utf16 ''ann'')),
           (utf16 ''content'', JStr (utf16 ''Still holds up.'')),
           (utf16 ''created_at'', JStr (utf16 ''2020-07-15T09:00:00.000Z'')),
           (utf16 ''url'', JStr (utf16 ''https://www.themoviedb.org/review/5f0e1a'')),
           (utf16 ''author_details'',
            JObj [(utf16 ''rating'', JNum (Finite 7)), (utf16 ''avatar_path'', JNull)])]"

definition plain_review :: json where
  "plain_review =
     JObj [(utf16 ''id'', JStr (utf16 ''60aa2b'')),
           (utf16 ''author'', JStr (utf16 ''bob'')),
           (utf16 ''content'', JStr (utf16 ''Fine.'')),
           (utf16 ''created_at'', JStr (utf16 ''2021-05-23T18:30:00.000Z'')),
           (utf16 ''url'', JStr (utf16 ''https://www.themoviedb.org/review/60aa2b''))]"

definition reviews_body :: json where
  "reviews_body =
     JObj [(utf16 ''id'', JNum (Finite 603)),
           (utf16 ''results'', JArr [rated_review, plain_review])]"

text \<open>A body of \<^verbatim>\<open>/movie/{id}\<close>, with an empty poster path.\<close>

definition detail_body :: json where
  "detail_body =
     JObj [(utf16 ''id'', JNum (Finite 603)),
           (utf16 ''title'', JStr (utf16 ''The Matrix'')),
           (utf16 ''poster_path'', JStr []),
           (utf16 ''vote_average'', JNum (Finite (41 / 5))),
           (utf16 ''overview'', JStr (utf16 ''A hacker learns the truth.'')),
           (utf16 ''release_date'', JStr (utf16 ''1999-03-31'')),
           (utf16 ''runtime'', JNum (Finite 136)),
           (utf16 ''genres'',
            JArr [JObj [(utf16 ''id'', JNum (Finite 28)),
                        (utf16 ''name'', JStr (utf16 ''Action''))]]),
           (utf16 ''spoken_languages'',
            JArr [JObj [(utf16 ''english_name'', JStr (utf16 ''English'')),
                        (utf16 ''iso_639_1'', JStr (utf16 ''en'')),
                        (utf16 ''name'', JStr (utf16 ''English''))]])]"

text \<open>What the callbacks make of the example items.\<close>

definition the_matrix_movie :: Movie where
  "the_matrix_movie =
     \<lparr>movie_id = utf16 ''603'', movie_title = Some (JStr (utf16 ''The Matrix'')),
      movie_image = utf16 ''https://image.tmdb.org/t/p/w500/matrix.jpg'',
      movie_rating = Some (JNum (Finite (41 / 5)))\<rparr>"

definition no_poster_movie :: Movie where
  "no_poster_movie =
     \<lparr>movie_id = utf16 ''604'', movie_title = Some (JStr (utf16 ''The Matrix Reloaded'')),
      movie_image = utf16 ''https://image.tmdb.org/t/p/w500null'',
      movie_rating = Some (JNum (Finite 7))\<rparr>"

definition the_matrix_detail :: MovieDetail where
  "the_matrix_detail =
     \<lparr>detail_id = utf16 ''603'', detail_title = Some (JStr (utf16 ''The Matrix'')),
      detail_image = utf16 ''https://image.tmdb.org/t/p/w500'',
      detail_rating = Some (JNum (Finite (41 / 5))),
      detail_overview = Some (JStr (utf16 ''A hacker learns the truth.'')),
      detail_releaseDate = Some (JStr (utf16 ''1999-03-31'')),
      detail_runtime = Some (JNum (Finite 136)),
      detail_genres =
        Some (JArr [JObj [(utf16 ''id'', JNum (Finite 28)),
                          (utf16 ''name'', JStr (utf16 ''Action''))]]),
      detail_spoken_languages =
        Some (JArr [JObj [(utf16 ''english_name'', JStr (utf16 ''English'')),
                          (utf16 ''iso_639_1'', JStr (utf16 ''en'')),
                          (utf16 ''name'', JStr (utf16 ''English''))]])\<rparr>"

definition neo_cast :: Cast where
  "neo_cast =
     \<lparr>cast_id = utf16 ''6384'', cast_profile_path = Some (JStr (utf16 ''/keanu.jpg'')),
      cast_name = Some (JStr (utf16 ''Keanu Reeves'')),
      cast_character = Some (JStr (utf16 ''Neo'')),
      cast_known_for_department = Some (JStr (utf16 ''Acting''))\<rparr>"

definition rated_review_out :: Review where
  "rated_review_out =
     \<lparr>review_id = Some (JStr (utf16 ''5f0e1a'')),
      review_author = Some (JStr (utf16 ''ann'')),
      review_content = Some (JStr (utf16 ''Still holds up.'')),
      review_created_at = Some (JStr (utf16 ''2020-07-15T09:00:00.000Z'')),
      review_url = Some (JStr (utf16 ''https://www.themoviedb.org/review/5f0e1a'')),
      review_rating = JNum (Finite 7), review_avatar_path = JNull\<rparr>"

definition plain_review_out :: Review where
  "plain_review_out =
     \<lparr>review_id = Some (JStr (utf16 ''60aa2b'')),
      review_author = Some (JStr (utf16 ''bob'')),
      review_content = Some (JStr (utf16 ''Fine.'')),
      review_created_at = Some (JStr (utf16 ''2021-05-23T18:30:00.000Z'')),
      review_url = Some (JStr (utf16 ''https://www.themoviedb.org/review/60aa2b'')),
      review_rating = JNull, review_avatar_path = JNull\<rparr>"

section \<open>Basic facts\<close>

lemma and_then_Inl [simp]: "and_then (Inl e) f = Inl e"
  by (simp add: and_then_def)

lemma and_then_Inr [simp]: "and_then (Inr x) f = f x"
  by (simp add: and_then_def)

lemma and_then_eq_Inr_iff: "and_then m f = Inr y \<longleftrightarrow> (\<exists>x. m = Inr x \<and> f x = Inr y)"
  by (cases m) simp_all

lemma and_then_eq_Inl_iff:
  "and_then m f = Inl e \<longleftrightarrow> m = Inl e \<or> (\<exists>x. m = Inr x \<and> f x = Inl e)"
  by (cases m) simp_all

lemma unat_utf16_char: "unat (word_of_nat (of_char c) :: 16 word) = of_char c"
proof -
  have "of_char c < (256 :: nat)" by (rule nat_of_char_less_256)
  also have "(256 :: nat) < 2 ^ LENGTH(16)" by simp
  finally show ?thesis by (simp only: unat_of_nat mod_less)
qed

lemma inj_utf16_char: "inj (\<lambda>c. word_of_nat (of_char c) :: 16 word)"
proof (rule injI)
  fix c d :: char
  assume "(word_of_nat (of_char c) :: 16 word) = word_of_nat (of_char d)"
  then have "unat (word_of_nat (of_char c) :: 16 word) = unat (word_of_nat (of_char d) :: 16 word)"
    by simp
  then have "(of_char c :: nat) = of_char d"
    by (simp only: unat_utf16_char)
  then show "c = d" by simp
qed

lemma utf16_eq_iff [simp]: "utf16 s = utf16 t \<longleftrightarrow> s = t"
  by (simp add: utf16_def inj_map_eq_map [OF inj_utf16_char])

lemma utf16_Nil [simp]: "utf16 [] = []"
  by (simp add: utf16_def)

lemma utf16_append: "utf16 (s @ t) = utf16 s @ utf16 t"
  by (simp add: utf16_def)

lemma traverse_eq_Inr_iff:
  "traverse f xs = Inr ys \<longleftrightarrow> list_all2 (\<lambda>x y. f x = Inr y) xs ys"
proof (induction xs arbitrary: ys)
  case Nil
  then show ?case by auto
next
  case (Cons x xs)
  show ?case
  proof (cases "f x")
    case (Inl e)
    then show ?thesis by (auto simp: list_all2_Cons1)
  next
    case (Inr y)
    then show ?thesis
      using Cons.IH by (cases "traverse f xs") (auto simp: list_all2_Cons1)
  qed
qed

lemma traverse_total:
  "(\<forall>x \<in> set xs. \<exists>y. f x = Inr y) \<Longrightarrow> \<exists>ys. traverse f xs = Inr ys"
proof (induction xs)
  case Nil
  then show ?case by simp
next
  case (Cons x xs)
  then obtain y ys where "f x = Inr y" "traverse f xs = Inr ys" by auto
  then show ?case by simp
qed

lemma traverse_nth:
  assumes "traverse f xs = Inr ys"
  shows "length ys = length xs \<and> (\<forall>i<length xs. f (xs ! i) = Inr (ys ! i))"
  using assms by (auto simp: traverse_eq_Inr_iff list_all2_conv_all_nth)

lemma traverse_Inl:
  "(\<exists>e. traverse f xs = Inl e) \<longleftrightarrow> (\<exists>x \<in> set xs. \<exists>e. f x = Inl e)"
proof (induction xs)
  case Nil
  then show ?case by simp
next
  case (Cons x xs)
  then show ?case by (auto split: sum.splits)
qed

lemma results_map_eq_Inr_iff:
  "and_then (get (Some data) key) (array_map f) = Inr ys \<longleftrightarrow>
     (\<exists>kvs xs. data = JObj kvs \<and> map_of kvs key = Some (JArr xs) \<and> traverse f xs = Inr ys)"
proof (cases data)
  case (JObj kvs)
  show ?thesis
  proof (cases "map_of kvs key")
    case None
    with JObj show ?thesis by simp
  next
    case (Some v)
    with JObj show ?thesis by (cases v) simp_all
  qed
qed simp_all

lemma try_block_eq_Inr_iff:
  "and_then (fetch rt req) (\<lambda>res. if \<not> ok res then Inl err else and_then (json res) f) = Inr y
     \<longleftrightarrow> (\<exists>data. upstream_body rt req = Some data \<and> f data = Inr y)"
  by (auto simp: upstream_body_def and_then_def split: sum.splits)

lemma try_block_fails_iff:
  "(\<exists>e. and_then (fetch rt req) (\<lambda>res. if \<not> ok res then Inl err else and_then (json res) f)
      = Inl e) \<longleftrightarrow> failure rt req f"
  by (auto simp: failure_def and_then_def isl_def split: sum.splits)

lemma mapped_in_order_iff:
  "mapped_in_order f xs ys \<longleftrightarrow> list_all2 (\<lambda>x y. f x = Inr y) xs ys"
  by (auto simp: mapped_in_order_def list_all2_conv_all_nth)

lemma try_block_success:
  "upstream_body rt req = Some data \<Longrightarrow>
   and_then (fetch rt req) (\<lambda>res. if \<not> ok res then Inl err else and_then (json res) f) = f data"
  by (auto simp: upstream_body_def split: sum.splits if_splits)

lemma upstream_list_SomeD:
  "upstream_list rt req key = Some xs \<Longrightarrow>
   \<exists>kvs. upstream_body rt req = Some (JObj kvs) \<and> map_of kvs key = Some (JArr xs)"
  by (auto simp: upstream_list_def split: option.splits json.splits)

lemma upstream_list_SomeI:
  "upstream_body rt req = Some (JObj kvs) \<Longrightarrow> map_of kvs key = Some (JArr xs) \<Longrightarrow>
   upstream_list rt req key = Some xs"
  by (simp add: upstream_list_def)

lemma non_success_failure: "non_success rt req \<Longrightarrow> failure rt req f"
  by (auto simp: non_success_def failure_def split: sum.splits)

lemma malformed_failure: "malformed rt req f \<Longrightarrow> failure rt req f"
  by (auto simp: malformed_def failure_def split: sum.splits)

lemma try_block_non_success:
  "non_success rt req \<Longrightarrow>
   and_then (fetch rt req) (\<lambda>res. if \<not> ok res then Inl err else and_then (json res) f) = Inl err"
  by (auto simp: non_success_def split: sum.splits)

lemma try_block_rejected:
  "fetch rt req = Inl e \<Longrightarrow>
   and_then (fetch rt req) (\<lambda>res. if \<not> ok res then Inl err else and_then (json res) f) = Inl e"
  by simp

lemma try_block_failure:
  "failure rt req f \<Longrightarrow>
   \<exists>e. and_then (fetch rt req) (\<lambda>res. if \<not> ok res then Inl err else and_then (json res) f)
     = Inl e"
  by (simp add: try_block_fails_iff)

lemma upstream_list_eq_Some_iff:
  "upstream_list rt req key = Some xs \<longleftrightarrow>
     (\<exists>kvs. upstream_body rt req = Some (JObj kvs) \<and> map_of kvs key = Some (JArr xs))"
  by (auto dest: upstream_list_SomeD intro: upstream_list_SomeI)

lemma results_map_success:
  assumes "map_of kvs key = Some (JArr xs)" and "\<forall>x \<in> set xs. \<exists>y. f x = Inr y"
  shows "\<exists>ys. and_then (get (Some (JObj kvs)) key) (array_map f) = Inr ys
           \<and> mapped_in_order f xs ys"
proof -
  from assms(2) obtain ys where "traverse f xs = Inr ys"
    by (blast dest: traverse_total)
  with assms(1) show ?thesis
    by (auto simp: mapped_in_order_iff traverse_eq_Inr_iff)
qed

lemma results_map_provenance:
  assumes "and_then (get (Some data) key) (array_map f) = Inr ys"
  shows "\<exists>kvs xs. data = JObj kvs \<and> map_of kvs key = Some (JArr xs) \<and> mapped_in_order f xs ys"
  using assms unfolding results_map_eq_Inr_iff mapped_in_order_iff traverse_eq_Inr_iff
  by blast

section \<open>The operations, case by case\<close>

subsection \<open>\<^verbatim>\<open>fetchMoviesRecommendation\<close>\<close>

lemma fetchMoviesRecommendation_success:
  assumes "upstream_body rt (recommendation_request rt movieId) = Some data"
    and "movie_results rt data = Inr ms"
  shows "returned (fetchMoviesRecommendation rt movieId) = Inr ms"
  using assms(2)
  by (simp add: fetchMoviesRecommendation_def fetchMoviesRecommendation_try_def
      try_block_success [OF assms(1)])

lemma fetchMoviesRecommendation_fallback:
  assumes "failure rt (recommendation_request rt movieId) (movie_results rt)"
  shows "returned (fetchMoviesRecommendation rt movieId) = Inr []"
proof -
  from try_block_failure [OF assms]
  obtain e where "fetchMoviesRecommendation_try rt movieId = Inl e"
    unfolding fetchMoviesRecommendation_try_def by blast
  then show ?thesis by (simp add: fetchMoviesRecommendation_def)
qed

lemma fetchMoviesRecommendation_total: "\<exists>ms. returned (fetchMoviesRecommendation rt movieId) = Inr ms"
  by (simp add: fetchMoviesRecommendation_def split: sum.splits)

lemma fetchMoviesRecommendation_provenance:
  assumes "returned (fetchMoviesRecommendation rt movieId) = Inr ms" and "ms \<noteq> []"
  shows "\<exists>data. upstream_body rt (recommendation_request rt movieId) = Some data
           \<and> movie_results rt data = Inr ms"
proof -
  from assms have "fetchMoviesRecommendation_try rt movieId = Inr ms"
    by (auto simp: fetchMoviesRecommendation_def split: sum.splits)
  then show ?thesis
    unfolding fetchMoviesRecommendation_try_def try_block_eq_Inr_iff .
qed

subsection \<open>\<^verbatim>\<open>fetchTrendingMovies\<close>\<close>

lemma fetchTrendingMovies_success:
  assumes "upstream_body rt (trending_request rt) = Some data"
    and "movie_results rt data = Inr ms"
  shows "returned (fetchTrendingMovies rt) = Inr ms"
  using assms(2)
  by (simp add: fetchTrendingMovies_def fetchTrendingMovies_try_def
      try_block_success [OF assms(1)])

lemma fetchTrendingMovies_fallback:
  assumes "failure rt (trending_request rt) (movie_results rt)"
  shows "returned (fetchTrendingMovies rt) = Inr []"
proof -
  from try_block_failure [OF assms]
  obtain e where "fetchTrendingMovies_try rt = Inl e"
    unfolding fetchTrendingMovies_try_def by blast
  then show ?thesis by (simp add: fetchTrendingMovies_def)
qed

lemma fetchTrendingMovies_total: "\<exists>ms. returned (fetchTrendingMovies rt) = Inr ms"
  by (simp add: fetchTrendingMovies_def split: sum.splits)

lemma fetchTrendingMovies_provenance:
  assumes "returned (fetchTrendingMovies rt) = Inr ms" and "ms \<noteq> []"
  shows "\<exists>data. upstream_body rt (trending_request rt) = Some data
           \<and> movie_results rt data = Inr ms"
proof -
  from assms have "fetchTrendingMovies_try rt = Inr ms"
    by (auto simp: fetchTrendingMovies_def split: sum.splits)
  then show ?thesis
    unfolding fetchTrendingMovies_try_def try_block_eq_Inr_iff .
qed

subsection \<open>\<^verbatim>\<open>fetchMovieCredits\<close>\<close>

lemma fetchMovieCredits_success:
  assumes "upstream_body rt (credits_request rt movieId) = Some data"
    and "cast_members rt data = Inr cs"
  shows "returned (fetchMovieCredits rt movieId) = Inr cs"
  using assms(2)
  by (simp add: fetchMovieCredits_def fetchMovieCredits_try_def
      try_block_success [OF assms(1)])

lemma fetchMovieCredits_fallback:
  assumes "failure rt (credits_request rt movieId) (cast_members rt)"
  shows "returned (fetchMovieCredits rt movieId) = Inr []"
proof -
  from try_block_failure [OF assms]
  obtain e where "fetchMovieCredits_try rt movieId = Inl e"
    unfolding fetchMovieCredits_try_def by blast
  then show ?thesis by (simp add: fetchMovieCredits_def)
qed

lemma fetchMovieCredits_total: "\<exists>cs. returned (fetchMovieCredits rt movieId) = Inr cs"
  by (simp add: fetchMovieCredits_def split: sum.splits)

lemma fetchMovieCredits_provenance:
  assumes "returned (fetchMovieCredits rt movieId) = Inr cs" and "cs \<noteq> []"
  shows "\<exists>data. upstream_body rt (credits_request rt movieId) = Some data
           \<and> cast_members rt data = Inr cs"
proof -
  from assms have "fetchMovieCredits_try rt movieId = Inr cs"
    by (auto simp: fetchMovieCredits_def split: sum.splits)
  then show ?thesis
    unfolding fetchMovieCredits_try_def try_block_eq_Inr_iff .
qed

subsection \<open>\<^verbatim>\<open>fetchMovieTrailer\<close>\<close>

lemma fetchMovieTrailer_success:
  assumes "upstream_body rt (trailer_request rt movieId) = Some data"
    and "first_result data = Inr t"
  shows "returned (fetchMovieTrailer rt movieId) = Inr t"
  using assms(2)
  by (simp add: fetchMovieTrailer_def fetchMovieTrailer_try_def
      try_block_success [OF assms(1)])

lemma fetchMovieTrailer_fallback:
  assumes "failure rt (trailer_request rt movieId) (first_result)"
  shows "returned (fetchMovieTrailer rt movieId) = Inr JNull"
proof -
  from try_block_failure [OF assms]
  obtain e where "fetchMovieTrailer_try rt movieId = Inl e"
    unfolding fetchMovieTrailer_try_def by blast
  then show ?thesis by (simp add: fetchMovieTrailer_def)
qed

lemma fetchMovieTrailer_total: "\<exists>t. returned (fetchMovieTrailer rt movieId) = Inr t"
  by (simp add: fetchMovieTrailer_def split: sum.splits)

lemma fetchMovieTrailer_provenance:
  assumes "returned (fetchMovieTrailer rt movieId) = Inr t" and "t \<noteq> JNull"
  shows "\<exists>data. upstream_body rt (trailer_request rt movieId) = Some data
           \<and> first_result data = Inr t"
proof -
  from assms have "fetchMovieTrailer_try rt movieId = Inr t"
    by (auto simp: fetchMovieTrailer_def split: sum.splits)
  then show ?thesis
    unfolding fetchMovieTrailer_try_def try_block_eq_Inr_iff .
qed

subsection \<open>\<^verbatim>\<open>fetchMovieReviews\<close>\<close>

lemma fetchMovieReviews_success:
  assumes "upstream_body rt (reviews_request rt movieId) = Some data"
    and "review_results data = Inr rs"
  shows "returned (fetchMovieReviews rt movieId) = Inr rs"
  using assms(2)
  by (simp add: fetchMovieReviews_def fetchMovieReviews_try_def
      try_block_success [OF assms(1)])

lemma fetchMovieReviews_fallback:
  assumes "failure rt (reviews_request rt movieId) (review_results)"
  shows "returned (fetchMovieReviews rt movieId) = Inr []"
proof -
  from try_block_failure [OF assms]
  obtain e where "fetchMovieReviews_try rt movieId = Inl e"
    unfolding fetchMovieReviews_try_def by blast
  then show ?thesis by (simp add: fetchMovieReviews_def)
qed

lemma fetchMovieReviews_total: "\<exists>rs. returned (fetchMovieReviews rt movieId) = Inr rs"
  by (simp add: fetchMovieReviews_def split: sum.splits)

lemma fetchMovieReviews_provenance:
  assumes "returned (fetchMovieReviews rt movieId) = Inr rs" and "rs \<noteq> []"
  shows "\<exists>data. upstream_body rt (reviews_request rt movieId) = Some data
           \<and> review_results data = Inr rs"
proof -
  from assms have "fetchMovieReviews_try rt movieId = Inr rs"
    by (auto simp: fetchMovieReviews_def split: sum.splits)
  then show ?thesis
    unfolding fetchMovieReviews_try_def try_block_eq_Inr_iff .
qed

subsection \<open>\<^verbatim>\<open>searchMovies\<close>\<close>

lemma searchMovies_success:
  assumes "search_request rt query = Inr req"
    and "upstream_body rt req = Some data"
    and "movie_results rt data = Inr ms"
  shows "returned (searchMovies rt query) = Inr ms"
  using assms(1,3)
  by (simp add: searchMovies_def searchMovies_try_def
      try_block_success [OF assms(2)])

lemma searchMovies_no_request:
  assumes "search_request rt query = Inl e"
  shows "returned (searchMovies rt query) = Inr []"
  using assms by (simp add: searchMovies_def searchMovies_try_def)

lemma searchMovies_fallback:
  assumes "search_request rt query = Inr req"
    and "failure rt req (movie_results rt)"
  shows "returned (searchMovies rt query) = Inr []"
proof -
  from try_block_failure [OF assms(2)] assms(1)
  obtain e where "searchMovies_try rt query = Inl e"
    unfolding searchMovies_try_def by auto
  then show ?thesis by (simp add: searchMovies_def)
qed

lemma searchMovies_total: "\<exists>ms. returned (searchMovies rt query) = Inr ms"
  by (simp add: searchMovies_def split: sum.splits)

lemma searchMovies_provenance:
  assumes "returned (searchMovies rt query) = Inr ms" and "ms \<noteq> []"
  shows "\<exists>req data. search_request rt query = Inr req
           \<and> upstream_body rt req = Some data \<and> movie_results rt data = Inr ms"
proof -
  from assms have "searchMovies_try rt query = Inr ms"
    by (auto simp: searchMovies_def split: sum.splits)
  then obtain req where req: "search_request rt query = Inr req"
    and "and_then (fetch rt req) (\<lambda>res. if \<not> ok res then Inl (Error search_failed_message)
           else and_then (json res) (movie_results rt)) = Inr ms"
    unfolding searchMovies_try_def and_then_eq_Inr_iff by blast
  then show ?thesis
    unfolding try_block_eq_Inr_iff by blast
qed

subsection \<open>\<^verbatim>\<open>fetchMovieDetail\<close>\<close>

lemma fetchMovieDetail_rethrows:
  "returned (fetchMovieDetail rt movieId) = fetchMovieDetail_try rt movieId"
  by (simp add: fetchMovieDetail_def split: sum.splits)

lemma fetchMovieDetail_success:
  assumes "upstream_body rt (detail_request rt movieId) = Some data"
  shows "returned (fetchMovieDetail rt movieId) = toMovieDetail rt data"
  by (simp add: fetchMovieDetail_rethrows fetchMovieDetail_try_def
      try_block_success [OF assms])

lemma fetchMovieDetail_failure:
  assumes "failure rt (detail_request rt movieId) (toMovieDetail rt)"
  shows "\<exists>e. returned (fetchMovieDetail rt movieId) = Inl e"
  using try_block_failure [OF assms]
  by (simp add: fetchMovieDetail_rethrows fetchMovieDetail_try_def)

lemma fetchMovieDetail_non_success:
  assumes "non_success rt (detail_request rt movieId)"
  shows "returned (fetchMovieDetail rt movieId)
           = Inl (Error (utf16 ''Failed to fetch movie detail''))"
  by (simp add: fetchMovieDetail_rethrows fetchMovieDetail_try_def
      try_block_non_success [OF assms])

lemma fetchMovieDetail_rejected:
  assumes "fetch rt (detail_request rt movieId) = Inl e"
  shows "returned (fetchMovieDetail rt movieId) = Inl e"
  using assms by (simp add: fetchMovieDetail_rethrows fetchMovieDetail_try_def)

lemma fetchMovieDetail_provenance:
  assumes "returned (fetchMovieDetail rt movieId) = Inr d"
  shows "\<exists>data. upstream_body rt (detail_request rt movieId) = Some data
           \<and> toMovieDetail rt data = Inr d"
  using assms
  unfolding fetchMovieDetail_rethrows fetchMovieDetail_try_def try_block_eq_Inr_iff .

lemma not_isl_iff: "\<not> isl r \<longleftrightarrow> (\<exists>v. r = Inr v)"
  by (cases r) simp_all

section \<open>The mapping callbacks, field by field\<close>

lemma get_Inr_iff:
  "get (Some x) k = Inr v \<longleftrightarrow>
     x \<noteq> JNull \<and> v = (case x of JObj kvs \<Rightarrow> map_of kvs k | _ \<Rightarrow> None)"
  by (cases x) auto

lemma toMovie_fields:
  assumes "toMovie rt x = Inr m"
  shows "\<exists>i p fragment.
           get (Some x) (utf16 ''id'') = Inr i
         \<and> toString (shortest rt) i = Inr (movie_id m)
         \<and> get (Some x) (utf16 ''title'') = Inr (movie_title m)
         \<and> get (Some x) (utf16 ''poster_path'') = Inr p
         \<and> ToString (shortest rt) p = Inr fragment
         \<and> movie_image m = image_prefix @ fragment
         \<and> get (Some x) (utf16 ''vote_average'') = Inr (movie_rating m)"
  using assms unfolding toMovie_def and_then_eq_Inr_iff by auto

lemma toMovieDetail_fields:
  assumes "toMovieDetail rt x = Inr d"
  shows "\<exists>i p fragment.
           get (Some x) (utf16 ''id'') = Inr i
         \<and> toString (shortest rt) i = Inr (detail_id d)
         \<and> get (Some x) (utf16 ''title'') = Inr (detail_title d)
         \<and> get (Some x) (utf16 ''poster_path'') = Inr p
         \<and> ToString (shortest rt) p = Inr fragment
         \<and> detail_image d = image_prefix @ fragment
         \<and> get (Some x) (utf16 ''vote_average'') = Inr (detail_rating d)
         \<and> get (Some x) (utf16 ''overview'') = Inr (detail_overview d)
         \<and> get (Some x) (utf16 ''release_date'') = Inr (detail_releaseDate d)
         \<and> get (Some x) (utf16 ''runtime'') = Inr (detail_runtime d)
         \<and> get (Some x) (utf16 ''genres'') = Inr (detail_genres d)
         \<and> get (Some x) (utf16 ''spoken_languages'') = Inr (detail_spoken_languages d)"
  using assms unfolding toMovieDetail_def and_then_eq_Inr_iff by auto

lemma toCast_fields:
  assumes "toCast rt x = Inr c"
  shows "\<exists>i. get (Some x) (utf16 ''id'') = Inr i
         \<and> toString (shortest rt) i = Inr (cast_id c)
         \<and> get (Some x) (utf16 ''profile_path'') = Inr (cast_profile_path c)
         \<and> get (Some x) (utf16 ''name'') = Inr (cast_name c)
         \<and> get (Some x) (utf16 ''character'') = Inr (cast_character c)
         \<and> get (Some x) (utf16 ''known_for_department'') = Inr (cast_known_for_department c)"
  using assms unfolding toCast_def and_then_eq_Inr_iff by auto

lemma toReview_fields:
  assumes "toReview x = Inr r"
  shows "\<exists>ad rating avatar.
           get (Some x) (utf16 ''id'') = Inr (review_id r)
         \<and> get (Some x) (utf16 ''author'') = Inr (review_author r)
         \<and> get (Some x) (utf16 ''content'') = Inr (review_content r)
         \<and> get (Some x) (utf16 ''created_at'') = Inr (review_created_at r)
         \<and> get (Some x) (utf16 ''url'') = Inr (review_url r)
         \<and> get (Some x) (utf16 ''author_details'') = Inr ad
         \<and> get_optional ad (utf16 ''rating'') = Inr rating
         \<and> review_rating r = or_null rating
         \<and> get_optional ad (utf16 ''avatar_path'') = Inr avatar
         \<and> review_avatar_path r = or_null avatar"
  using assms unfolding toReview_def and_then_eq_Inr_iff by auto

text \<open>A review is mapped whenever it is not \<^verbatim>\<open>null\<close>.\<close>

lemma get_optional_total: "\<exists>v. get_optional ad k = Inr v"
  by (cases "(ad, k)" rule: get_optional.cases) (auto simp: get_Inr_iff)

text \<open>
  Items of the shape the interfaces \<^verbatim>\<open>TMDBMovie\<close>, \<^verbatim>\<open>Cast\<close> and \<^verbatim>\<open>TMDBReview\<close> describe
  are mapped, none of the callbacks throws on them; the callbacks throw on \<^verbatim>\<open>null\<close>,
  and those that call \<^verbatim>\<open>id.toString()\<close> throw on an item without \<^verbatim>\<open>id\<close>.
\<close>

lemma toMovie_object:
  assumes "map_of kvs (utf16 ''id'') = Some (JNum n)"
    and "map_of kvs (utf16 ''poster_path'') = Some (JStr p)"
  shows "toMovie rt (JObj kvs) =
     Inr \<lparr>movie_id = number_toString (shortest rt) n,
          movie_title = map_of kvs (utf16 ''title''),
          movie_image = image_prefix @ p,
          movie_rating = map_of kvs (utf16 ''vote_average'')\<rparr>"
  using assms by (simp add: toMovie_def)

lemma toMovie_null_poster:
  assumes "map_of kvs (utf16 ''id'') = Some (JNum n)"
    and "map_of kvs (utf16 ''poster_path'') = Some JNull"
  shows "toMovie rt (JObj kvs) =
     Inr \<lparr>movie_id = number_toString (shortest rt) n,
          movie_title = map_of kvs (utf16 ''title''),
          movie_image = image_prefix @ utf16 ''null'',
          movie_rating = map_of kvs (utf16 ''vote_average'')\<rparr>"
  using assms by (simp add: toMovie_def)

lemma toCast_object:
  assumes "map_of kvs (utf16 ''id'') = Some (JNum n)"
  shows "toCast rt (JObj kvs) =
     Inr \<lparr>cast_id = number_toString (shortest rt) n,
          cast_profile_path = map_of kvs (utf16 ''profile_path''),
          cast_name = map_of kvs (utf16 ''name''),
          cast_character = map_of kvs (utf16 ''character''),
          cast_known_for_department = map_of kvs (utf16 ''known_for_department'')\<rparr>"
  using assms by (simp add: toCast_def)

lemma toReview_not_null: "x \<noteq> JNull \<Longrightarrow> \<exists>r. toReview x = Inr r"
proof -
  assume "x \<noteq> JNull"
  then have read: "\<And>k. \<exists>v. get (Some x) k = Inr v"
    by (simp add: get_Inr_iff)
  then obtain ad where ad: "get (Some x) (utf16 ''author_details'') = Inr ad" by blast
  obtain rating avatar
    where "get_optional ad (utf16 ''rating'') = Inr rating"
      and "get_optional ad (utf16 ''avatar_path'') = Inr avatar"
    using get_optional_total by blast
  with ad read [of "utf16 ''id''"] read [of "utf16 ''author''"] read [of "utf16 ''content''"]
    read [of "utf16 ''created_at''"] read [of "utf16 ''url''"]
  show ?thesis
    by (auto simp: toReview_def)
qed

lemma callbacks_throw_on_null:
  "toMovie rt JNull = Inl TypeError" "toCast rt JNull = Inl TypeError"
  "toReview JNull = Inl TypeError" "toMovieDetail rt JNull = Inl TypeError"
  by (simp_all add: toMovie_def toCast_def toReview_def toMovieDetail_def)

lemma callbacks_throw_without_id:
  assumes "map_of kvs (utf16 ''id'') = None"
  shows "toMovie rt (JObj kvs) = Inl TypeError" "toCast rt (JObj kvs) = Inl TypeError"
    "toMovieDetail rt (JObj kvs) = Inl TypeError"
  using assms by (simp_all add: toMovie_def toCast_def toMovieDetail_def)

section \<open>List operations: what goes in and what comes out\<close>

lemma movie_results_success:
  assumes "map_of kvs (utf16 ''results'') = Some (JArr xs)"
    and "\<forall>x \<in> set xs. \<exists>y. toMovie rt x = Inr y"
  shows "\<exists>ms. movie_results rt (JObj kvs) = Inr ms \<and> mapped_in_order (toMovie rt) xs ms"
  unfolding movie_results_def by (rule results_map_success [OF assms])

lemma movie_results_provenance:
  assumes "movie_results rt data = Inr ms"
  shows "\<exists>kvs xs. data = JObj kvs \<and> map_of kvs (utf16 ''results'') = Some (JArr xs)
           \<and> mapped_in_order (toMovie rt) xs ms"
  using assms unfolding movie_results_def by (rule results_map_provenance)

lemma cast_members_success:
  assumes "map_of kvs (utf16 ''cast'') = Some (JArr xs)"
    and "\<forall>x \<in> set xs. \<exists>y. toCast rt x = Inr y"
  shows "\<exists>cs. cast_members rt (JObj kvs) = Inr cs \<and> mapped_in_order (toCast rt) xs cs"
  unfolding cast_members_def by (rule results_map_success [OF assms])

lemma cast_members_provenance:
  assumes "cast_members rt data = Inr cs"
  shows "\<exists>kvs xs. data = JObj kvs \<and> map_of kvs (utf16 ''cast'') = Some (JArr xs)
           \<and> mapped_in_order (toCast rt) xs cs"
  using assms unfolding cast_members_def by (rule results_map_provenance)

lemma review_results_success:
  assumes "map_of kvs (utf16 ''results'') = Some (JArr xs)"
    and "\<forall>x \<in> set xs. \<exists>y. toReview x = Inr y"
  shows "\<exists>rs. review_results (JObj kvs) = Inr rs \<and> mapped_in_order (toReview) xs rs"
  unfolding review_results_def by (rule results_map_success [OF assms])

lemma review_results_provenance:
  assumes "review_results data = Inr rs"
  shows "\<exists>kvs xs. data = JObj kvs \<and> map_of kvs (utf16 ''results'') = Some (JArr xs)
           \<and> mapped_in_order (toReview) xs rs"
  using assms unfolding review_results_def by (rule results_map_provenance)

lemma fetchMoviesRecommendation_maps_list:
  assumes "upstream_list rt (recommendation_request rt movieId) (utf16 ''results'') = Some xs"
    and "\<forall>x \<in> set xs. \<exists>y. toMovie rt x = Inr y"
  shows "\<exists>ms. returned (fetchMoviesRecommendation rt movieId) = Inr ms \<and> mapped_in_order (toMovie rt) xs ms"
proof -
  from assms(1) obtain kvs
    where body: "upstream_body rt (recommendation_request rt movieId) = Some (JObj kvs)"
      and "map_of kvs (utf16 ''results'') = Some (JArr xs)"
    by (blast dest: upstream_list_SomeD)
  with assms(2) show ?thesis
    by (blast dest: movie_results_success intro: fetchMoviesRecommendation_success [OF body])
qed

lemma fetchMoviesRecommendation_items:
  assumes "returned (fetchMoviesRecommendation rt movieId) = Inr ms"
  shows "ms = [] \<or> (\<exists>xs. upstream_list rt (recommendation_request rt movieId) (utf16 ''results'') = Some xs
           \<and> mapped_in_order (toMovie rt) xs ms)"
proof (cases "ms = []")
  case False
  with assms show ?thesis
    by (blast dest: fetchMoviesRecommendation_provenance movie_results_provenance
        intro: upstream_list_SomeI)
qed simp

lemma fetchTrendingMovies_maps_list:
  assumes "upstream_list rt (trending_request rt) (utf16 ''results'') = Some xs"
    and "\<forall>x \<in> set xs. \<exists>y. toMovie rt x = Inr y"
  shows "\<exists>ms. returned (fetchTrendingMovies rt) = Inr ms \<and> mapped_in_order (toMovie rt) xs ms"
proof -
  from assms(1) obtain kvs
    where body: "upstream_body rt (trending_request rt) = Some (JObj kvs)"
      and "map_of kvs (utf16 ''results'') = Some (JArr xs)"
    by (blast dest: upstream_list_SomeD)
  with assms(2) show ?thesis
    by (blast dest: movie_results_success intro: fetchTrendingMovies_success [OF body])
qed

lemma fetchTrendingMovies_items:
  assumes "returned (fetchTrendingMovies rt) = Inr ms"
  shows "ms = [] \<or> (\<exists>xs. upstream_list rt (trending_request rt) (utf16 ''results'') = Some xs
           \<and> mapped_in_order (toMovie rt) xs ms)"
proof (cases "ms = []")
  case False
  with assms show ?thesis
    by (blast dest: fetchTrendingMovies_provenance movie_results_provenance
        intro: upstream_list_SomeI)
qed simp

lemma fetchMovieCredits_maps_list:
  assumes "upstream_list rt (credits_request rt movieId) (utf16 ''cast'') = Some xs"
    and "\<forall>x \<in> set xs. \<exists>y. toCast rt x = Inr y"
  shows "\<exists>cs. returned (fetchMovieCredits rt movieId) = Inr cs \<and> mapped_in_order (toCast rt) xs cs"
proof -
  from assms(1) obtain kvs
    where body: "upstream_body rt (credits_request rt movieId) = Some (JObj kvs)"
      and "map_of kvs (utf16 ''cast'') = Some (JArr xs)"
    by (blast dest: upstream_list_SomeD)
  with assms(2) show ?thesis
    by (blast dest: cast_members_success intro: fetchMovieCredits_success [OF body])
qed

lemma fetchMovieCredits_items:
  assumes "returned (fetchMovieCredits rt movieId) = Inr cs"
  shows "cs = [] \<or> (\<exists>xs. upstream_list rt (credits_request rt movieId) (utf16 ''cast'') = Some xs
           \<and> mapped_in_order (toCast rt) xs cs)"
proof (cases "cs = []")
  case False
  with assms show ?thesis
    by (blast dest: fetchMovieCredits_provenance cast_members_provenance
        intro: upstream_list_SomeI)
qed simp

lemma fetchMovieReviews_maps_list:
  assumes "upstream_list rt (reviews_request rt movieId) (utf16 ''results'') = Some xs"
    and "\<forall>x \<in> set xs. \<exists>y. toReview x = Inr y"
  shows "\<exists>rs. returned (fetchMovieReviews rt movieId) = Inr rs \<and> mapped_in_order (toReview) xs rs"
proof -
  from assms(1) obtain kvs
    where body: "upstream_body rt (reviews_request rt movieId) = Some (JObj kvs)"
      and "map_of kvs (utf16 ''results'') = Some (JArr xs)"
    by (blast dest: upstream_list_SomeD)
  with assms(2) show ?thesis
    by (blast dest: review_results_success intro: fetchMovieReviews_success [OF body])
qed

lemma fetchMovieReviews_items:
  assumes "returned (fetchMovieReviews rt movieId) = Inr rs"
  shows "rs = [] \<or> (\<exists>xs. upstream_list rt (reviews_request rt movieId) (utf16 ''results'') = Some xs
           \<and> mapped_in_order (toReview) xs rs)"
proof (cases "rs = []")
  case False
  with assms show ?thesis
    by (blast dest: fetchMovieReviews_provenance review_results_provenance
        intro: upstream_list_SomeI)
qed simp

lemma searchMovies_maps_list:
  assumes "search_request rt query = Inr req"
    and "upstream_list rt req (utf16 ''results'') = Some xs"
    and "\<forall>x \<in> set xs. \<exists>y. toMovie rt x = Inr y"
  shows "\<exists>ms. returned (searchMovies rt query) = Inr ms \<and> mapped_in_order (toMovie rt) xs ms"
proof -
  from assms(2) obtain kvs
    where body: "upstream_body rt req = Some (JObj kvs)"
      and "map_of kvs (utf16 ''results'') = Some (JArr xs)"
    by (blast dest: upstream_list_SomeD)
  with assms(3) show ?thesis
    by (blast dest: movie_results_success intro: searchMovies_success [OF assms(1) body])
qed

lemma searchMovies_items:
  assumes "returned (searchMovies rt query) = Inr ms"
  shows "ms = [] \<or> (\<exists>req xs. search_request rt query = Inr req
           \<and> upstream_list rt req (utf16 ''results'') = Some xs
           \<and> mapped_in_order (toMovie rt) xs ms)"
proof (cases "ms = []")
  case False
  with assms show ?thesis
    by (blast dest: searchMovies_provenance movie_results_provenance
        intro: upstream_list_SomeI)
qed simp

section \<open>Images, ratings and ids of single items\<close>



lemma toMovie_rating:
  "toMovie rt x = Inr m \<Longrightarrow> get (Some x) (utf16 ''vote_average'') = Inr (movie_rating m)"
  by (blast dest: toMovie_fields)

lemma toMovieDetail_rating:
  "toMovieDetail rt x = Inr d \<Longrightarrow> get (Some x) (utf16 ''vote_average'') = Inr (detail_rating d)"
  by (blast dest: toMovieDetail_fields)

lemma toString_number: "toString sh (Some (JNum n)) = Inr s \<longleftrightarrow> s = number_toString sh n"
  by auto

lemma toMovie_id:
  assumes "toMovie rt x = Inr m"
  shows "id_of_number rt x (movie_id m)"
proof -
  from toMovie_fields [OF assms] obtain i
    where "get (Some x) (utf16 ''id'') = Inr i"
      and "toString (shortest rt) i = Inr (movie_id m)"
    by blast
  then show ?thesis
    by (auto simp: id_of_number_def split: option.splits json.splits)
qed

lemma toMovieDetail_id:
  assumes "toMovieDetail rt x = Inr d"
  shows "id_of_number rt x (detail_id d)"
proof -
  from toMovieDetail_fields [OF assms] obtain i
    where "get (Some x) (utf16 ''id'') = Inr i"
      and "toString (shortest rt) i = Inr (detail_id d)"
    by blast
  then show ?thesis
    by (auto simp: id_of_number_def split: option.splits json.splits)
qed

lemma toCast_id:
  assumes "toCast rt x = Inr c"
  shows "id_of_number rt x (cast_id c)"
proof -
  from toCast_fields [OF assms] obtain i
    where "get (Some x) (utf16 ''id'') = Inr i"
      and "toString (shortest rt) i = Inr (cast_id c)"
    by blast
  then show ?thesis
    by (auto simp: id_of_number_def split: option.splits json.splits)
qed

lemma toReview_id:
  "toReview x = Inr r \<Longrightarrow> get (Some x) (utf16 ''id'') = Inr (review_id r)"
  by (blast dest: toReview_fields)

text \<open>Whole numbers up to \<open>2\<^sup>5\<^sup>3\<close> are written with their decimal digits.\<close>

lemma number_toString_int:
  assumes "\<bar>k\<bar> \<le> 2 ^ 53"
  shows "number_toString sh (Finite (of_int k))
           = (if k < 0 then utf16 ''-'' @ decimal (nat (- k)) else decimal (nat k))"
proof -
  have "\<bar>rat_of_int k\<bar> \<le> 2 ^ 53"
    using assms by (simp flip: of_int_abs add: of_int_le_numeral_power_cancel_iff)
  then show ?thesis by simp
qed

lemma number_toString_nat:
  assumes "k \<le> 2 ^ 53"
  shows "number_toString sh (Finite (of_nat k)) = decimal k"
  using number_toString_int [of "int k" sh] assms
  by (simp add: of_nat_le_numeral_power_cancel_iff)

lemma unat_digit: "d < 10 \<Longrightarrow> unat (word_of_nat (48 + d) :: 16 word) = 48 + d"
  by (simp only: unat_of_nat) simp

lemma decimal_digit: "d < 10 \<Longrightarrow> unat (48 + word_of_nat d :: 16 word) = 48 + d"
  using unat_digit [of d] by simp

lemma digits_value_snoc:
  "digits_value (s @ [c]) = 10 * digits_value s + (unat c - 48)"
  by (simp add: digits_value_def)

lemma digits_value_decimal: "digits_value (decimal n) = n"
proof (induction n rule: decimal.induct)
  case (1 n)
  show ?case
  proof (cases "n < 10")
    case True
    then show ?thesis
      by (subst decimal.simps) (simp add: digits_value_def decimal_digit)
  next
    case False
    with "1.IH" have "digits_value (decimal (n div 10)) = n div 10" by simp
    with False show ?thesis
      by (subst decimal.simps) (simp add: digits_value_snoc decimal_digit)
  qed
qed

lemma decimal_digits: "c \<in> set (decimal n) \<Longrightarrow> 48 \<le> unat c \<and> unat c \<le> 57"
proof (induction n rule: decimal.induct)
  case (1 n)
  show ?case
  proof (cases "n < 10")
    case True
    with "1.prems" show ?thesis
      by (subst (asm) decimal.simps) (auto simp: decimal_digit)
  next
    case False
    with "1.prems" have "c \<in> set (decimal (n div 10)) \<or> c = word_of_nat (48 + n mod 10)"
      by (subst (asm) decimal.simps) auto
    with False "1.IH" show ?thesis
      by (auto simp: decimal_digit)
  qed
qed

section \<open>Every item an operation returns comes from an upstream item\<close>

lemma mapped_in_order_related:
  assumes "mapped_in_order f xs ys" and "\<And>x y. f x = Inr y \<Longrightarrow> P x y"
  shows "list_all2 P xs ys"
  using assms by (auto simp: mapped_in_order_iff elim: list_all2_mono)

lemma fetchMoviesRecommendation_each:
  assumes "returned (fetchMoviesRecommendation rt movieId) = Inr ms"
    and "\<And>x y. toMovie rt x = Inr y \<Longrightarrow> P x y"
  shows "ms = [] \<or> (\<exists>xs. upstream_list rt (recommendation_request rt movieId) (utf16 ''results'') = Some xs
           \<and> list_all2 P xs ms)"
  using fetchMoviesRecommendation_items [OF assms(1)] assms(2)
  by (blast intro: mapped_in_order_related)

lemma fetchTrendingMovies_each:
  assumes "returned (fetchTrendingMovies rt) = Inr ms"
    and "\<And>x y. toMovie rt x = Inr y \<Longrightarrow> P x y"
  shows "ms = [] \<or> (\<exists>xs. upstream_list rt (trending_request rt) (utf16 ''results'') = Some xs
           \<and> list_all2 P xs ms)"
  using fetchTrendingMovies_items [OF assms(1)] assms(2)
  by (blast intro: mapped_in_order_related)

lemma fetchMovieCredits_each:
  assumes "returned (fetchMovieCredits rt movieId) = Inr cs"
    and "\<And>x y. toCast rt x = Inr y \<Longrightarrow> P x y"
  shows "cs = [] \<or> (\<exists>xs. upstream_list rt (credits_request rt movieId) (utf16 ''cast'') = Some xs
           \<and> list_all2 P xs cs)"
  using fetchMovieCredits_items [OF assms(1)] assms(2)
  by (blast intro: mapped_in_order_related)

lemma fetchMovieReviews_each:
  assumes "returned (fetchMovieReviews rt movieId) = Inr rs"
    and "\<And>x y. toReview x = Inr y \<Longrightarrow> P x y"
  shows "rs = [] \<or> (\<exists>xs. upstream_list rt (reviews_request rt movieId) (utf16 ''results'') = Some xs
           \<and> list_all2 P xs rs)"
  using fetchMovieReviews_items [OF assms(1)] assms(2)
  by (blast intro: mapped_in_order_related)

lemma searchMovies_each:
  assumes "returned (searchMovies rt query) = Inr ms"
    and "\<And>x y. toMovie rt x = Inr y \<Longrightarrow> P x y"
  shows "ms = [] \<or> (\<exists>req xs. search_request rt query = Inr req
           \<and> upstream_list rt req (utf16 ''results'') = Some xs \<and> list_all2 P xs ms)"
  using searchMovies_items [OF assms(1)] assms(2)
  by (blast intro: mapped_in_order_related)

section \<open>encodeURIComponent\<close>

lemma prepend_eq_Inr_iff: "prepend p r = Inr s \<longleftrightarrow> (\<exists>t. r = Inr t \<and> s = p @ t)"
  by (cases r) (auto simp: prepend_def)

lemma prepend_eq_Inl_iff: "prepend p r = Inl e \<longleftrightarrow> r = Inl e"
  by (cases r) (auto simp: prepend_def)

lemma uriUnescaped_ascii: "uriUnescaped c \<Longrightarrow> unat c < 128"
  by (auto simp: uriUnescaped_def utf16_def Let_def)

lemma uriUnescaped_not_surrogate:
  "uriUnescaped c \<Longrightarrow> \<not> is_lead_surrogate c \<and> \<not> is_trail_surrogate c"
  by (auto dest: uriUnescaped_ascii simp: is_lead_surrogate_def is_trail_surrogate_def)

lemma lead_not_trail: "is_lead_surrogate c \<Longrightarrow> \<not> is_trail_surrogate c"
  by (simp add: is_lead_surrogate_def is_trail_surrogate_def)

lemma unat_small: "n < 65536 \<Longrightarrow> unat (word_of_nat n :: 16 word) = n"
  by (simp only: unat_of_nat) simp

lemma hex_digit_unescaped: "d < 16 \<Longrightarrow> uriUnescaped (hex_digit d)"
proof (cases "d < 10")
  case True
  then have "unat (word_of_nat (48 + d) :: 16 word) = 48 + d"
    by (intro unat_small) simp
  with True show ?thesis
    by (simp add: hex_digit_def uriUnescaped_def del: of_nat_add)
next
  case False
  assume "d < 16"
  then have "unat (word_of_nat (55 + d) :: 16 word) = 55 + d"
    by (intro unat_small) simp
  with False \<open>d < 16\<close> show ?thesis
    by (simp add: hex_digit_def uriUnescaped_def del: of_nat_add)
qed

lemma percent_safe: "c \<in> set (percent octet) \<Longrightarrow> uriUnescaped c \<or> c = 37"
  by (auto simp: percent_def intro: hex_digit_unescaped)

lemma percent_octets_safe:
  "c \<in> set (concat (map percent octets)) \<Longrightarrow> uriUnescaped c \<or> c = 37"
  by (auto dest: percent_safe)

text \<open>What is written is unreserved characters and \<^verbatim>\<open>%XX\<close> escapes only.\<close>

lemma encodeURIComponent_safe:
  "encodeURIComponent s = Inr encoded \<Longrightarrow> c \<in> set encoded \<Longrightarrow> uriUnescaped c \<or> c = 37"
proof (induction s arbitrary: encoded rule: encodeURIComponent.induct)
  case 1
  then show ?case by (simp add: encodeURIComponent.simps)
next
  case (2 u us)
  show ?case
  proof (cases "uriUnescaped u")
    case True
    with "2.prems" obtain t where "encodeURIComponent us = Inr t" "encoded = [u] @ t"
      by (auto simp: encodeURIComponent.simps prepend_eq_Inr_iff)
    with True "2.IH"(1) "2.prems"(2) show ?thesis by auto
  next
    case False
    note unreserved = this
    show ?thesis
    proof (cases "is_lead_surrogate u")
      case False
      with unreserved "2.prems" obtain t
        where "\<not> is_trail_surrogate u" "encodeURIComponent us = Inr t"
          "encoded = concat (map percent (utf8 (unat u))) @ t"
        by (auto simp: encodeURIComponent.simps prepend_eq_Inr_iff split: if_splits)
      with unreserved False "2.IH"(2) "2.prems"(2) show ?thesis
        by (auto dest: percent_safe)
    next
      case True
      with unreserved "2.prems" obtain d ds t
        where "\<not> is_trail_surrogate u" "us = d # ds" "is_trail_surrogate d"
          "encodeURIComponent ds = Inr t"
          "encoded = concat (map percent (utf8 (surrogate_pair u d))) @ t"
        by (auto simp: encodeURIComponent.simps prepend_eq_Inr_iff
            split: if_splits list.splits)
      with unreserved True "2.IH"(3) "2.prems"(2) show ?thesis
        by (auto dest: percent_safe)
    qed
  qed
qed

text \<open>It throws exactly on the strings that are not well formed, and then \<open>URIError\<close>.\<close>

lemma encodeURIComponent_well_formed:
  "well_formed s \<Longrightarrow> \<exists>encoded. encodeURIComponent s = Inr encoded"
proof (induction s rule: encodeURIComponent.induct)
  case 1
  then show ?case by (simp add: encodeURIComponent.simps)
next
  case (2 u us)
  show ?case
  proof (cases "uriUnescaped u")
    case True
    with "2.prems" have "well_formed us"
      by (simp add: uriUnescaped_not_surrogate)
    with True "2.IH"(1) show ?thesis
      by (auto simp: encodeURIComponent.simps prepend_eq_Inr_iff)
  next
    case False
    note unreserved = this
    show ?thesis
    proof (cases "is_lead_surrogate u")
      case False
      with "2.prems" have "\<not> is_trail_surrogate u" "well_formed us" by simp_all
      with unreserved False "2.IH"(2) show ?thesis
        by (auto simp: encodeURIComponent.simps prepend_eq_Inr_iff)
    next
      case True
      with "2.prems" obtain d ds
        where "us = d # ds" "is_trail_surrogate d" "well_formed ds"
        by (auto split: list.splits)
      with unreserved True "2.IH"(3) show ?thesis
        by (auto simp: encodeURIComponent.simps prepend_eq_Inr_iff lead_not_trail)
    qed
  qed
qed

lemma encodeURIComponent_not_well_formed:
  "\<not> well_formed s \<Longrightarrow> encodeURIComponent s = Inl URIError"
proof (induction s rule: encodeURIComponent.induct)
  case 1
  then show ?case by simp
next
  case (2 u us)
  show ?case
  proof (cases "uriUnescaped u")
    case True
    with "2.prems" have "\<not> well_formed us"
      by (simp add: uriUnescaped_not_surrogate)
    with True "2.IH"(1) show ?thesis
      by (simp add: encodeURIComponent.simps prepend_eq_Inl_iff)
  next
    case False
    note unreserved = this
    show ?thesis
    proof (cases "is_lead_surrogate u")
      case False
      note not_lead = this
      show ?thesis
      proof (cases "is_trail_surrogate u")
        case True
        with unreserved show ?thesis by (simp add: encodeURIComponent.simps)
      next
        case False
        with not_lead "2.prems" have "\<not> well_formed us" by simp
        with unreserved not_lead False "2.IH"(2) show ?thesis
          by (simp add: encodeURIComponent.simps prepend_eq_Inl_iff)
      qed
    next
      case True
      then have not_trail: "\<not> is_trail_surrogate u" by (rule lead_not_trail)
      show ?thesis
      proof (cases us)
        case Nil
        with unreserved True not_trail show ?thesis
          by (simp add: encodeURIComponent.simps)
      next
        case (Cons d ds)
        show ?thesis
        proof (cases "is_trail_surrogate d")
          case False
          with unreserved True not_trail Cons show ?thesis
            by (simp add: encodeURIComponent.simps)
        next
          case trail: True
          with True Cons "2.prems" have "\<not> well_formed ds" by simp
          with unreserved True not_trail Cons trail "2.IH"(3) show ?thesis
            by (simp add: encodeURIComponent.simps prepend_eq_Inl_iff)
        qed
      qed
    qed
  qed
qed

text \<open>None of the characters that structure a URL is unreserved or the percent sign.\<close>

lemma safe_is_no_delimiter:
  assumes "uriUnescaped c \<or> c = 37"
  shows "unat c < 128 \<and> c \<notin> set (utf16 ''&=#?+/ '')"
proof
  from assms show "unat c < 128"
    by (auto dest: uriUnescaped_ascii)
  from assms show "c \<notin> set (utf16 ''&=#?+/ '')"
    by (auto simp: uriUnescaped_def utf16_def Let_def)
qed

text \<open>
  The mapping callbacks take nothing from the runtime but \<open>shortest\<close>, and
  \<^verbatim>\<open>searchMovies\<close> takes nothing from the network but the answer to its one request.
\<close>

lemma toMovie_cong:
  assumes "shortest rt' = shortest rt"
  shows "toMovie rt' = toMovie rt"
  unfolding toMovie_def assms ..

lemma movie_results_cong:
  assumes "shortest rt' = shortest rt"
  shows "movie_results rt' = movie_results rt"
  unfolding movie_results_def toMovie_cong [OF assms] ..

lemma search_request_cong:
  assumes "NEXT_PUBLIC_TMDB_ACCESS_TOKEN rt' = NEXT_PUBLIC_TMDB_ACCESS_TOKEN rt"
  shows "search_request rt' query = search_request rt query"
  unfolding search_request_def authorization_def assms ..


lemma searchMovies_one_request:
  assumes "search_request rt query = Inr req"
    and "fetch rt' req = fetch rt req"
    and "NEXT_PUBLIC_TMDB_ACCESS_TOKEN rt' = NEXT_PUBLIC_TMDB_ACCESS_TOKEN rt"
    and "shortest rt' = shortest rt"
  shows "searchMovies rt' query = searchMovies rt query"
proof -
  from assms(1) have "search_request rt' query = Inr req"
    by (simp only: search_request_cong [OF assms(3)])
  with assms(1) have "searchMovies_try rt' query = searchMovies_try rt query"
    unfolding searchMovies_try_def movie_results_cong [OF assms(4)]
    by (simp only: and_then_Inr assms(2))
  then show ?thesis
    unfolding searchMovies_def by (rule arg_cong)
qed

lemma encoded_characters:
  assumes "encodeURIComponent s = Inr encoded" and "c \<in> set encoded"
  shows "(uriUnescaped c \<or> c = 37) \<and> unat c < 128 \<and> c \<notin> set (utf16 ''&=#?+/ '')"
proof -
  from assms have safe: "uriUnescaped c \<or> c = 37"
    by (rule encodeURIComponent_safe)
  from safe safe_is_no_delimiter [OF safe] show ?thesis
    by (intro conjI) (elim conjE, assumption)+
qed

section \<open>The callbacks map the fields of well-shaped items\<close>

lemma itemwise_iff_list_all2: "itemwise R xs ys \<longleftrightarrow> list_all2 R xs ys"
  by (auto simp: itemwise_def list_all2_conv_all_nth)

lemma mapped_in_order_itemwise:
  assumes "mapped_in_order f xs ys"
    and "\<forall>x \<in> set xs. S x"
    and "\<And>x y. S x \<Longrightarrow> f x = Inr y \<Longrightarrow> R x y"
  shows "itemwise R xs ys"
  using assms by (auto simp: mapped_in_order_def itemwise_def)

lemma itemwise_two:
  "itemwise R [a, b] ys \<longleftrightarrow> (\<exists>c d. ys = [c, d] \<and> R a c \<and> R b d)"
  by (auto simp: itemwise_iff_list_all2 list_all2_Cons1)

lemma itemwise_one: "itemwise R [a] ys \<longleftrightarrow> (\<exists>c. ys = [c] \<and> R a c)"
  by (auto simp: itemwise_iff_list_all2 list_all2_Cons1)

lemma movie_shaped_mapped:
  assumes "movie_shaped x"
  shows "\<exists>m. toMovie rt x = Inr m"
proof -
  from assms obtain n p
    where "get (Some x) (utf16 ''id'') = Inr (Some (JNum n))"
      and "get (Some x) (utf16 ''poster_path'') = Inr (Some p)"
      and "p = JNull \<or> (\<exists>fragment. p = JStr fragment)"
    by (auto simp: movie_shaped_def split: sum.splits option.splits json.splits)
  moreover from this(1) obtain t v
    where "get (Some x) (utf16 ''title'') = Inr t"
      and "get (Some x) (utf16 ''vote_average'') = Inr v"
    by (auto simp: get_Inr_iff)
  ultimately show ?thesis
    by (auto simp: toMovie_def)
qed

lemma toMovie_movie_of_item:
  assumes "movie_shaped x" and "toMovie rt x = Inr m"
  shows "movie_of_item rt x m"
proof -
  from toMovie_fields [OF assms(2)] obtain i p fragment
    where "get (Some x) (utf16 ''id'') = Inr i"
      and "toString (shortest rt) i = Inr (movie_id m)"
      and "get (Some x) (utf16 ''title'') = Inr (movie_title m)"
      and "get (Some x) (utf16 ''poster_path'') = Inr p"
      and "ToString (shortest rt) p = Inr fragment"
      and "movie_image m = image_prefix @ fragment"
      and "get (Some x) (utf16 ''vote_average'') = Inr (movie_rating m)"
    by blast
  with assms(1) show ?thesis
    by (auto simp: movie_shaped_def movie_of_item_def split: option.splits json.splits)
qed

lemma cast_shaped_mapped:
  assumes "cast_shaped x"
  shows "\<exists>c. toCast rt x = Inr c"
proof -
  from assms obtain i
    where "get (Some x) (utf16 ''id'') = Inr (Some i)"
      and "(\<exists>n. i = JNum n) \<or> (\<exists>s. i = JStr s)"
    by (auto simp: cast_shaped_def split: sum.splits option.splits json.splits)
  moreover from this(1) have "\<And>k. \<exists>v. get (Some x) k = Inr v"
    by (auto simp: get_Inr_iff)
  then obtain pp n ch k
    where "get (Some x) (utf16 ''profile_path'') = Inr pp"
      and "get (Some x) (utf16 ''name'') = Inr n"
      and "get (Some x) (utf16 ''character'') = Inr ch"
      and "get (Some x) (utf16 ''known_for_department'') = Inr k"
    by metis
  ultimately show ?thesis
    by (auto simp: toCast_def)
qed

lemma toCast_cast_of_item:
  assumes "cast_shaped x" and "toCast rt x = Inr c"
  shows "cast_of_item rt x c"
proof -
  from toCast_fields [OF assms(2)] obtain i
    where "get (Some x) (utf16 ''id'') = Inr i"
      and "toString (shortest rt) i = Inr (cast_id c)"
      and "get (Some x) (utf16 ''profile_path'') = Inr (cast_profile_path c)"
      and "get (Some x) (utf16 ''name'') = Inr (cast_name c)"
      and "get (Some x) (utf16 ''character'') = Inr (cast_character c)"
      and "get (Some x) (utf16 ''known_for_department'') = Inr (cast_known_for_department c)"
    by blast
  with assms(1) show ?thesis
    by (auto simp: cast_shaped_def cast_of_item_def split: option.splits json.splits)
qed

lemma review_shaped_mapped: "review_shaped x \<Longrightarrow> \<exists>r. toReview x = Inr r"
  by (rule toReview_not_null) (auto simp: review_shaped_def)

lemma get_optional_or_null:
  assumes "get (Some x) (utf16 ''author_details'') = Inr ad"
    and "get_optional ad k = Inr v"
  shows "or_null v = author_detail x k"
proof (cases ad)
  case None
  with assms show ?thesis by (auto simp: author_detail_def)
next
  case (Some a)
  with assms show ?thesis by (cases a) (auto simp: author_detail_def split: option.splits)
qed

lemma toReview_review_of_item:
  assumes "toReview x = Inr r"
  shows "review_of_item x r"
proof -
  from toReview_fields [OF assms] obtain ad rating avatar
    where "get (Some x) (utf16 ''id'') = Inr (review_id r)"
      and "get (Some x) (utf16 ''author'') = Inr (review_author r)"
      and "get (Some x) (utf16 ''content'') = Inr (review_content r)"
      and "get (Some x) (utf16 ''created_at'') = Inr (review_created_at r)"
      and "get (Some x) (utf16 ''url'') = Inr (review_url r)"
      and ad: "get (Some x) (utf16 ''author_details'') = Inr ad"
      and rating: "get_optional ad (utf16 ''rating'') = Inr rating"
        "review_rating r = or_null rating"
      and avatar: "get_optional ad (utf16 ''avatar_path'') = Inr avatar"
        "review_avatar_path r = or_null avatar"
    by blast
  then show ?thesis
    by (simp add: review_of_item_def get_optional_or_null [OF ad rating(1)]
        get_optional_or_null [OF ad avatar(1)])
qed

section \<open>Facts about the examples\<close>

lemma fetch_example_runtime [simp]: "fetch (example_runtime answer) req = answer"
  by (simp add: example_runtime_def)

lemma failure_example_rejected [simp]: "failure (example_runtime (Inl e)) req f"
  by (simp add: failure_def)

lemma non_success_example_not_found [simp]: "non_success (example_runtime not_found) req"
  by (simp add: non_success_def not_found_def)

lemma upstream_body_example_ok [simp]:
  "upstream_body (example_runtime (ok_with body)) req = Some body"
  by (simp add: upstream_body_def ok_with_def)

lemma malformed_example_ok:
  "malformed (example_runtime (ok_with body)) req f = isl (f body)"
  by (simp add: malformed_def ok_with_def)

lemma failure_example_not_found [simp]: "failure (example_runtime not_found) req f"
  by (rule non_success_failure) simp

lemma movie_results_unexpected [simp]: "movie_results rt unexpected_body = Inl TypeError"
  by (simp add: movie_results_def unexpected_body_def)

lemma toMovieDetail_unexpected [simp]: "toMovieDetail rt unexpected_body = Inl TypeError"
  by (simp add: toMovieDetail_def unexpected_body_def)

lemma upstream_list_example_ok:
  "upstream_list (example_runtime (ok_with (JObj kvs))) req key
     = (case map_of kvs key of Some (JArr xs) \<Rightarrow> Some xs | _ \<Rightarrow> None)"
  by (simp add: upstream_list_def)

lemma lone_surrogate_throws: "encodeURIComponent [0xD800] = Inl URIError"
  by (simp add: encodeURIComponent.simps uriUnescaped_def is_trail_surrogate_def is_lead_surrogate_def utf16_def)

lemma encode_matrix: "encodeURIComponent (utf16 ''matrix'') = Inr (utf16 ''matrix'')"
  by (simp add: encodeURIComponent.simps uriUnescaped_def utf16_def prepend_def)

lemma decimal_603: "decimal 603 = utf16 ''603''"
  by (simp add: decimal.simps utf16_def)

lemma decimal_604: "decimal 604 = utf16 ''604''"
  by (simp add: decimal.simps utf16_def)

lemma decimal_6384: "decimal 6384 = utf16 ''6384''"
  by (simp add: decimal.simps utf16_def)

lemma toMovie_the_matrix:
  "toMovie rt the_matrix =
     Inr \<lparr>movie_id = utf16 ''603'', movie_title = Some (JStr (utf16 ''The Matrix'')),
          movie_image = image_prefix @ utf16 ''/matrix.jpg'',
          movie_rating = Some (JNum (Finite (41 / 5)))\<rparr>"
  by (simp add: toMovie_def the_matrix_def decimal_603)

lemma toMovie_no_poster:
  "toMovie rt no_poster =
     Inr \<lparr>movie_id = utf16 ''604'', movie_title = Some (JStr (utf16 ''The Matrix Reloaded'')),
          movie_image = image_prefix @ utf16 ''null'',
          movie_rating = Some (JNum (Finite 7))\<rparr>"
  by (simp add: toMovie_def no_poster_def decimal_604)

lemma toCast_neo:
  "toCast rt neo =
     Inr \<lparr>cast_id = utf16 ''6384'', cast_profile_path = Some (JStr (utf16 ''/keanu.jpg'')),
          cast_name = Some (JStr (utf16 ''Keanu Reeves'')),
          cast_character = Some (JStr (utf16 ''Neo'')),
          cast_known_for_department = Some (JStr (utf16 ''Acting''))\<rparr>"
  by (simp add: toCast_def neo_def decimal_6384)

lemma toReview_rated_review:
  "toReview rated_review =
     Inr \<lparr>review_id = Some (JStr (utf16 ''5f0e1a'')),
          review_author = Some (JStr (utf16 ''ann'')),
          review_content = Some (JStr (utf16 ''Still holds up.'')),
          review_created_at = Some (JStr (utf16 ''2020-07-15T09:00:00.000Z'')),
          review_url = Some (JStr (utf16 ''https://www.themoviedb.org/review/5f0e1a'')),
          review_rating = JNum (Finite 7), review_avatar_path = JNull\<rparr>"
  by (simp add: toReview_def rated_review_def)

lemma toReview_plain_review:
  "toReview plain_review =
     Inr \<lparr>review_id = Some (JStr (utf16 ''60aa2b'')),
          review_author = Some (JStr (utf16 ''bob'')),
          review_content = Some (JStr (utf16 ''Fine.'')),
          review_created_at = Some (JStr (utf16 ''2021-05-23T18:30:00.000Z'')),
          review_url = Some (JStr (utf16 ''https://www.themoviedb.org/review/60aa2b'')),
          review_rating = JNull, review_avatar_path = JNull\<rparr>"
  by (simp add: toReview_def plain_review_def)

lemma upstream_list_movies [simp]:
  "upstream_list (example_runtime (ok_with movies_body)) req (utf16 ''results'')
     = Some [the_matrix, no_poster]"
  by (simp add: upstream_list_example_ok movies_body_def)

lemma upstream_list_credits [simp]:
  "upstream_list (example_runtime (ok_with credits_body)) req (utf16 ''cast'') = Some [neo]"
  by (simp add: upstream_list_example_ok credits_body_def)

lemma upstream_list_reviews [simp]:
  "upstream_list (example_runtime (ok_with reviews_body)) req (utf16 ''results'')
     = Some [rated_review, plain_review]"
  by (simp add: upstream_list_example_ok reviews_body_def)

lemma search_request_matrix:
  "search_request rt (utf16 ''matrix'') =
     Inr \<lparr>url = utf16 ''https://api.themoviedb.org/3/search/movie?query='' @ utf16 ''matrix''
                  @ utf16 ''&language=en-US'',
          headers = [authorization rt], revalidate = None\<rparr>"
  by (simp add: search_request_def encode_matrix)

lemma image_prefix_append:
  "image_prefix @ utf16 s = utf16 (''https://image.tmdb.org/t/p/w500'' @ s)"
  by (simp only: image_prefix_def utf16_append)

lemma movie_results_movies_body:
  "movie_results rt movies_body = Inr [the_matrix_movie, no_poster_movie]"
  by (simp add: movie_results_def movies_body_def toMovie_the_matrix toMovie_no_poster
      the_matrix_movie_def no_poster_movie_def image_prefix_append)

lemma toMovieDetail_detail_body: "toMovieDetail rt detail_body = Inr the_matrix_detail"
  by (simp add: toMovieDetail_def detail_body_def the_matrix_detail_def decimal_603
      image_prefix_def)

lemma cast_members_credits_body: "cast_members rt credits_body = Inr [neo_cast]"
  by (simp add: cast_members_def credits_body_def toCast_neo neo_cast_def)

lemma review_results_reviews_body:
  "review_results reviews_body = Inr [rated_review_out, plain_review_out]"
  by (simp add: review_results_def reviews_body_def toReview_rated_review
      toReview_plain_review rated_review_out_def plain_review_out_def)

lemma fetchTrendingMovies_example:
  "returned (fetchTrendingMovies (example_runtime (ok_with movies_body)))
     = Inr [the_matrix_movie, no_poster_movie]"
  by (rule fetchTrendingMovies_success [OF upstream_body_example_ok movie_results_movies_body])

lemma fetchMoviesRecommendation_example:
  "returned (fetchMoviesRecommendation (example_runtime (ok_with movies_body)) (utf16 ''603''))
     = Inr [the_matrix_movie, no_poster_movie]"
  by (rule fetchMoviesRecommendation_success
      [OF upstream_body_example_ok movie_results_movies_body])

lemma searchMovies_example:
  "returned (searchMovies (example_runtime (ok_with movies_body)) (utf16 ''matrix''))
     = Inr [the_matrix_movie, no_poster_movie]"
  by (rule searchMovies_success
      [OF search_request_matrix upstream_body_example_ok movie_results_movies_body])

lemma fetchMovieDetail_example:
  "returned (fetchMovieDetail (example_runtime (ok_with detail_body)) (utf16 ''603''))
     = Inr the_matrix_detail"
  by (simp add: fetchMovieDetail_success [OF upstream_body_example_ok]
      toMovieDetail_detail_body)

lemma fetchMovieCredits_example:
  "returned (fetchMovieCredits (example_runtime (ok_with credits_body)) (utf16 ''603''))
     = Inr [neo_cast]"
  by (rule fetchMovieCredits_success [OF upstream_body_example_ok cast_members_credits_body])

lemma fetchMovieReviews_example:
  "returned (fetchMovieReviews (example_runtime (ok_with reviews_body)) (utf16 ''603''))
     = Inr [rated_review_out, plain_review_out]"
  by (rule fetchMovieReviews_success [OF upstream_body_example_ok review_results_reviews_body])

lemma half_emoji_not_well_formed: "\<not> well_formed (utf16 ''hi'' @ [0xD83D])"
  by (simp add: utf16_def is_lead_surrogate_def is_trail_surrogate_def)

lemma well_formed_query: "well_formed (utf16 ''a&b=c d'' @ [0xE9, 0xD83D, 0xDE00])"
  by (simp add: utf16_def is_lead_surrogate_def is_trail_surrogate_def)

lemma encode_query:
  "encodeURIComponent (utf16 ''a&b=c d'' @ [0xE9, 0xD83D, 0xDE00])
     = Inr (utf16 ''a%26b%3Dc%20d%C3%A9%F0%9F%98%80'')"
  by (simp add: encodeURIComponent.simps utf16_def uriUnescaped_def is_lead_surrogate_def
      is_trail_surrogate_def surrogate_pair_def utf8_def percent_def hex_digit_def
      prepend_def)

lemma movie_shaped_examples: "movie_shaped the_matrix" "movie_shaped no_poster"
  by (simp_all add: movie_shaped_def the_matrix_def no_poster_def)

lemma cast_shaped_neo: "cast_shaped neo"
  by (simp add: cast_shaped_def neo_def)

lemma review_shaped_examples: "review_shaped rated_review" "review_shaped plain_review"
  by (simp_all add: review_shaped_def rated_review_def plain_review_def)

lemma movie_of_item_the_matrix: "movie_of_item rt the_matrix m \<longleftrightarrow> m = the_matrix_movie"
  by (cases m)
    (auto simp: movie_of_item_def the_matrix_def the_matrix_movie_def decimal_603
      image_prefix_append)

lemma movie_of_item_no_poster: "movie_of_item rt no_poster m \<longleftrightarrow> m = no_poster_movie"
  by (cases m)
    (auto simp: movie_of_item_def no_poster_def no_poster_movie_def decimal_604
      image_prefix_append)

lemma cast_of_item_neo: "cast_of_item rt neo c \<longleftrightarrow> c = neo_cast"
  by (cases c) (auto simp: cast_of_item_def neo_def neo_cast_def decimal_6384)

lemma review_of_item_rated_review: "review_of_item rated_review r \<longleftrightarrow> r = rated_review_out"
  by (cases r)
    (auto simp: review_of_item_def author_detail_def rated_review_def rated_review_out_def)

lemma review_of_item_plain_review: "review_of_item plain_review r \<longleftrightarrow> r = plain_review_out"
  by (cases r)
    (auto simp: review_of_item_def author_detail_def plain_review_def plain_review_out_def)

section \<open>Error handling\<close>

text \<open>
  \<^bold>\<open>C2.\<close> Every operation except \<^verbatim>\<open>fetchMovieDetail\<close> always returns a value, no
  exception reaches its caller; and on every failure (\<^verbatim>\<open>fetch\<close> rejects, the status is
  not a success, the body does not parse, or the mapping of the body throws) that value
  is the fallback: the empty list for trending, recommendations, credits, reviews and
  search, \<^verbatim>\<open>null\<close> for the trailer. For \<^verbatim>\<open>searchMovies\<close> the failures include the
  one before the request, when \<^verbatim>\<open>encodeURIComponent\<close> throws.
\<close>

theorem fallback_operations_never_throw:
  "(\<exists>ms. returned (fetchTrendingMovies rt) = Inr ms)
   \<and> (failure rt (trending_request rt) (movie_results rt)
        \<longrightarrow> returned (fetchTrendingMovies rt) = Inr [])
   \<and> (\<exists>ms. returned (fetchMoviesRecommendation rt movieId) = Inr ms)
   \<and> (failure rt (recommendation_request rt movieId) (movie_results rt)
        \<longrightarrow> returned (fetchMoviesRecommendation rt movieId) = Inr [])
   \<and> (\<exists>cs. returned (fetchMovieCredits rt movieId) = Inr cs)
   \<and> (failure rt (credits_request rt movieId) (cast_members rt)
        \<longrightarrow> returned (fetchMovieCredits rt movieId) = Inr [])
   \<and> (\<exists>rs. returned (fetchMovieReviews rt movieId) = Inr rs)
   \<and> (failure rt (reviews_request rt movieId) review_results
        \<longrightarrow> returned (fetchMovieReviews rt movieId) = Inr [])
   \<and> (\<exists>t. returned (fetchMovieTrailer rt movieId) = Inr t)
   \<and> (failure rt (trailer_request rt movieId) first_result
        \<longrightarrow> returned (fetchMovieTrailer rt movieId) = Inr JNull)
   \<and> (\<exists>ms. returned (searchMovies rt query) = Inr ms)
   \<and> ((\<exists>e. search_request rt query = Inl e)
        \<longrightarrow> returned (searchMovies rt query) = Inr [])
   \<and> (\<forall>req. search_request rt query = Inr req \<and> failure rt req (movie_results rt)
        \<longrightarrow> returned (searchMovies rt query) = Inr [])"
proof (intro conjI impI allI)
  show "\<exists>ms. returned (fetchTrendingMovies rt) = Inr ms"
    by (rule fetchTrendingMovies_total)
  show "\<exists>ms. returned (fetchMoviesRecommendation rt movieId) = Inr ms"
    by (rule fetchMoviesRecommendation_total)
  show "\<exists>cs. returned (fetchMovieCredits rt movieId) = Inr cs"
    by (rule fetchMovieCredits_total)
  show "\<exists>rs. returned (fetchMovieReviews rt movieId) = Inr rs"
    by (rule fetchMovieReviews_total)
  show "\<exists>t. returned (fetchMovieTrailer rt movieId) = Inr t"
    by (rule fetchMovieTrailer_total)
  show "\<exists>ms. returned (searchMovies rt query) = Inr ms"
    by (rule searchMovies_total)
next
  assume "failure rt (trending_request rt) (movie_results rt)"
  then show "returned (fetchTrendingMovies rt) = Inr []"
    by (rule fetchTrendingMovies_fallback)
next
  assume "failure rt (recommendation_request rt movieId) (movie_results rt)"
  then show "returned (fetchMoviesRecommendation rt movieId) = Inr []"
    by (rule fetchMoviesRecommendation_fallback)
next
  assume "failure rt (credits_request rt movieId) (cast_members rt)"
  then show "returned (fetchMovieCredits rt movieId) = Inr []"
    by (rule fetchMovieCredits_fallback)
next
  assume "failure rt (reviews_request rt movieId) review_results"
  then show "returned (fetchMovieReviews rt movieId) = Inr []"
    by (rule fetchMovieReviews_fallback)
next
  assume "failure rt (trailer_request rt movieId) first_result"
  then show "returned (fetchMovieTrailer rt movieId) = Inr JNull"
    by (rule fetchMovieTrailer_fallback)
next
  assume "\<exists>e. search_request rt query = Inl e"
  then show "returned (searchMovies rt query) = Inr []"
    by (blast intro: searchMovies_no_request)
next
  fix req
  assume "search_request rt query = Inr req \<and> failure rt req (movie_results rt)"
  then show "returned (searchMovies rt query) = Inr []"
    by (blast intro: searchMovies_fallback)
qed

text \<open>
  An instance: the network is down; one search has a query that cannot be encoded.
\<close>

theorem fallback_operations_never_throw_witness:
  "failure (example_runtime (Inl NetworkError))
      (trending_request (example_runtime (Inl NetworkError)))
      (movie_results (example_runtime (Inl NetworkError)))
   \<and> returned (fetchTrendingMovies (example_runtime (Inl NetworkError))) = Inr []
   \<and> returned (fetchMoviesRecommendation (example_runtime (Inl NetworkError)) (utf16 ''603''))
       = Inr []
   \<and> returned (fetchMovieCredits (example_runtime (Inl NetworkError)) (utf16 ''603'')) = Inr []
   \<and> returned (fetchMovieReviews (example_runtime (Inl NetworkError)) (utf16 ''603'')) = Inr []
   \<and> returned (fetchMovieTrailer (example_runtime (Inl NetworkError)) (utf16 ''603''))
       = Inr JNull
   \<and> returned (searchMovies (example_runtime (Inl NetworkError)) (utf16 ''matrix'')) = Inr []
   \<and> search_request (example_runtime (Inl NetworkError)) [0xD800] = Inl URIError
   \<and> returned (searchMovies (example_runtime (Inl NetworkError)) [0xD800]) = Inr []"
  using fallback_operations_never_throw
          [of "example_runtime (Inl NetworkError)" "utf16 ''603''" "utf16 ''matrix''"]
        fallback_operations_never_throw
          [of "example_runtime (Inl NetworkError)" "utf16 ''603''" "[0xD800]"]
  by (simp add: search_request_def lone_surrogate_throws encode_matrix)

text \<open>
  \<^bold>\<open>C3.\<close> \<^verbatim>\<open>fetchMovieDetail\<close> lets every failure reach its caller as an exception,
  so no \<^verbatim>\<open>MovieDetail\<close> is returned then: on a status that is not a success the
  exception is the \<^verbatim>\<open>Error\<close> the function throws itself, on a rejected \<^verbatim>\<open>fetch\<close> it
  is the rejection. None of the other six operations ever throws.
\<close>

theorem fetchMovieDetail_alone_rethrows:
  "(failure rt (detail_request rt movieId) (toMovieDetail rt)
      \<longrightarrow> (\<exists>e. returned (fetchMovieDetail rt movieId) = Inl e))
   \<and> (non_success rt (detail_request rt movieId)
      \<longrightarrow> returned (fetchMovieDetail rt movieId)
            = Inl (Error (utf16 ''Failed to fetch movie detail'')))
   \<and> (\<forall>e. fetch rt (detail_request rt movieId) = Inl e
      \<longrightarrow> returned (fetchMovieDetail rt movieId) = Inl e)
   \<and> \<not> isl (returned (fetchTrendingMovies rt))
   \<and> \<not> isl (returned (fetchMoviesRecommendation rt movieId))
   \<and> \<not> isl (returned (fetchMovieCredits rt movieId))
   \<and> \<not> isl (returned (fetchMovieTrailer rt movieId))
   \<and> \<not> isl (returned (fetchMovieReviews rt movieId))
   \<and> \<not> isl (returned (searchMovies rt query))"
proof (intro conjI impI allI)
  assume "failure rt (detail_request rt movieId) (toMovieDetail rt)"
  then show "\<exists>e. returned (fetchMovieDetail rt movieId) = Inl e"
    by (rule fetchMovieDetail_failure)
next
  assume "non_success rt (detail_request rt movieId)"
  then show "returned (fetchMovieDetail rt movieId)
               = Inl (Error (utf16 ''Failed to fetch movie detail''))"
    by (rule fetchMovieDetail_non_success)
next
  fix e
  assume "fetch rt (detail_request rt movieId) = Inl e"
  then show "returned (fetchMovieDetail rt movieId) = Inl e"
    by (rule fetchMovieDetail_rejected)
next
  show "\<not> isl (returned (fetchTrendingMovies rt))"
    unfolding not_isl_iff by (rule fetchTrendingMovies_total)
  show "\<not> isl (returned (fetchMoviesRecommendation rt movieId))"
    unfolding not_isl_iff by (rule fetchMoviesRecommendation_total)
  show "\<not> isl (returned (fetchMovieCredits rt movieId))"
    unfolding not_isl_iff by (rule fetchMovieCredits_total)
  show "\<not> isl (returned (fetchMovieTrailer rt movieId))"
    unfolding not_isl_iff by (rule fetchMovieTrailer_total)
  show "\<not> isl (returned (fetchMovieReviews rt movieId))"
    unfolding not_isl_iff by (rule fetchMovieReviews_total)
  show "\<not> isl (returned (searchMovies rt query))"
    unfolding not_isl_iff by (rule searchMovies_total)
qed

theorem fetchMovieDetail_alone_rethrows_witness:
  "failure (example_runtime not_found)
      (detail_request (example_runtime not_found) (utf16 ''0''))
      (toMovieDetail (example_runtime not_found))
   \<and> non_success (example_runtime not_found)
        (detail_request (example_runtime not_found) (utf16 ''0''))
   \<and> returned (fetchMovieDetail (example_runtime not_found) (utf16 ''0''))
        = Inl (Error (utf16 ''Failed to fetch movie detail''))
   \<and> fetch (example_runtime (Inl NetworkError))
        (detail_request (example_runtime (Inl NetworkError)) (utf16 ''0'')) = Inl NetworkError
   \<and> returned (fetchMovieDetail (example_runtime (Inl NetworkError)) (utf16 ''0''))
        = Inl NetworkError
   \<and> \<not> isl (returned (fetchMovieTrailer (example_runtime not_found) (utf16 ''0'')))"
  using fetchMovieDetail_alone_rethrows
          [of "example_runtime not_found" "utf16 ''0''" "utf16 ''matrix''"]
        fetchMovieDetail_alone_rethrows
          [of "example_runtime (Inl NetworkError)" "utf16 ''0''" "utf16 ''matrix''"]
  by simp

text \<open>
  \<^bold>\<open>C7.\<close> An ok response whose body is malformed or unexpected (\<^verbatim>\<open>res.json()\<close>
  rejects, or the mapping throws on a field access) has the same outcome as a response
  whose status is not a success: the fallback value for the six operations that have
  one, an exception for \<^verbatim>\<open>fetchMovieDetail\<close>.
\<close>

theorem malformed_body_as_non_success:
  "(malformed rt (trending_request rt) (movie_results rt)
      \<and> non_success rt' (trending_request rt')
      \<longrightarrow> returned (fetchTrendingMovies rt) = Inr []
          \<and> returned (fetchTrendingMovies rt') = Inr [])
   \<and> (malformed rt (recommendation_request rt movieId) (movie_results rt)
      \<and> non_success rt' (recommendation_request rt' movieId)
      \<longrightarrow> returned (fetchMoviesRecommendation rt movieId) = Inr []
          \<and> returned (fetchMoviesRecommendation rt' movieId) = Inr [])
   \<and> (malformed rt (credits_request rt movieId) (cast_members rt)
      \<and> non_success rt' (credits_request rt' movieId)
      \<longrightarrow> returned (fetchMovieCredits rt movieId) = Inr []
          \<and> returned (fetchMovieCredits rt' movieId) = Inr [])
   \<and> (malformed rt (reviews_request rt movieId) review_results
      \<and> non_success rt' (reviews_request rt' movieId)
      \<longrightarrow> returned (fetchMovieReviews rt movieId) = Inr []
          \<and> returned (fetchMovieReviews rt' movieId) = Inr [])
   \<and> (malformed rt (trailer_request rt movieId) first_result
      \<and> non_success rt' (trailer_request rt' movieId)
      \<longrightarrow> returned (fetchMovieTrailer rt movieId) = Inr JNull
          \<and> returned (fetchMovieTrailer rt' movieId) = Inr JNull)
   \<and> (\<forall>req req'. search_request rt query = Inr req \<and> malformed rt req (movie_results rt)
      \<and> search_request rt' query = Inr req' \<and> non_success rt' req'
      \<longrightarrow> returned (searchMovies rt query) = Inr []
          \<and> returned (searchMovies rt' query) = Inr [])
   \<and> (malformed rt (detail_request rt movieId) (toMovieDetail rt)
      \<and> non_success rt' (detail_request rt' movieId)
      \<longrightarrow> isl (returned (fetchMovieDetail rt movieId))
          \<and> isl (returned (fetchMovieDetail rt' movieId)))"
proof (intro conjI impI allI)
  assume "malformed rt (trending_request rt) (movie_results rt)
      \<and> non_success rt' (trending_request rt')"
  then show "returned (fetchTrendingMovies rt) = Inr []"
    and "returned (fetchTrendingMovies rt') = Inr []"
    by (blast intro: fetchTrendingMovies_fallback malformed_failure non_success_failure)+
next
  assume "malformed rt (recommendation_request rt movieId) (movie_results rt)
      \<and> non_success rt' (recommendation_request rt' movieId)"
  then show "returned (fetchMoviesRecommendation rt movieId) = Inr []"
    and "returned (fetchMoviesRecommendation rt' movieId) = Inr []"
    by (blast intro: fetchMoviesRecommendation_fallback malformed_failure non_success_failure)+
next
  assume "malformed rt (credits_request rt movieId) (cast_members rt)
      \<and> non_success rt' (credits_request rt' movieId)"
  then show "returned (fetchMovieCredits rt movieId) = Inr []"
    and "returned (fetchMovieCredits rt' movieId) = Inr []"
    by (blast intro: fetchMovieCredits_fallback malformed_failure non_success_failure)+
next
  assume "malformed rt (reviews_request rt movieId) review_results
      \<and> non_success rt' (reviews_request rt' movieId)"
  then show "returned (fetchMovieReviews rt movieId) = Inr []"
    and "returned (fetchMovieReviews rt' movieId) = Inr []"
    by (blast intro: fetchMovieReviews_fallback malformed_failure non_success_failure)+
next
  assume "malformed rt (trailer_request rt movieId) first_result
      \<and> non_success rt' (trailer_request rt' movieId)"
  then show "returned (fetchMovieTrailer rt movieId) = Inr JNull"
    and "returned (fetchMovieTrailer rt' movieId) = Inr JNull"
    by (blast intro: fetchMovieTrailer_fallback malformed_failure non_success_failure)+
next
  fix req req'
  assume "search_request rt query = Inr req \<and> malformed rt req (movie_results rt)
      \<and> search_request rt' query = Inr req' \<and> non_success rt' req'"
  then show "returned (searchMovies rt query) = Inr []"
    and "returned (searchMovies rt' query) = Inr []"
    by (blast intro: searchMovies_fallback malformed_failure non_success_failure)+
next
  assume *: "malformed rt (detail_request rt movieId) (toMovieDetail rt)
      \<and> non_success rt' (detail_request rt' movieId)"
  then have "\<exists>e. returned (fetchMovieDetail rt movieId) = Inl e"
    by (blast intro: fetchMovieDetail_failure malformed_failure)
  then show "isl (returned (fetchMovieDetail rt movieId))" by auto
  from * have "\<exists>e. returned (fetchMovieDetail rt' movieId) = Inl e"
    by (blast intro: fetchMovieDetail_failure non_success_failure)
  then show "isl (returned (fetchMovieDetail rt' movieId))" by auto
qed

theorem malformed_body_as_non_success_witness:
  "malformed (example_runtime (ok_with unexpected_body))
      (trending_request (example_runtime (ok_with unexpected_body)))
      (movie_results (example_runtime (ok_with unexpected_body)))
   \<and> non_success (example_runtime not_found) (trending_request (example_runtime not_found))
   \<and> returned (fetchTrendingMovies (example_runtime (ok_with unexpected_body))) = Inr []
   \<and> returned (fetchTrendingMovies (example_runtime not_found)) = Inr []
   \<and> malformed (example_runtime (ok_with unexpected_body))
      (detail_request (example_runtime (ok_with unexpected_body)) (utf16 ''0''))
      (toMovieDetail (example_runtime (ok_with unexpected_body)))
   \<and> isl (returned (fetchMovieDetail (example_runtime (ok_with unexpected_body)) (utf16 ''0'')))
   \<and> isl (returned (fetchMovieDetail (example_runtime not_found) (utf16 ''0'')))"
  using malformed_body_as_non_success
          [of "example_runtime (ok_with unexpected_body)" "example_runtime not_found"
              "utf16 ''0''" "utf16 ''matrix''"]
  by (simp add: malformed_example_ok)

section \<open>The trailer\<close>

text \<open>
  \<^bold>\<open>C4.\<close> On a successful response \<^verbatim>\<open>fetchMovieTrailer\<close> returns \<^verbatim>\<open>null\<close> when the
  upstream \<^verbatim>\<open>results\<close> list is empty, and otherwise its first entry, whatever
  follows it. The entries are objects, as the interface \<^verbatim>\<open>TMDBMovieTrailer\<close> has them.
\<close>

theorem fetchMovieTrailer_first_or_null:
  "(upstream_list rt (trailer_request rt movieId) (utf16 ''results'') = Some []
      \<longrightarrow> returned (fetchMovieTrailer rt movieId) = Inr JNull)
   \<and> (upstream_list rt (trailer_request rt movieId) (utf16 ''results'')
         = Some (JObj first # others)
      \<longrightarrow> returned (fetchMovieTrailer rt movieId) = Inr (JObj first))"
proof (intro conjI impI)
  assume "upstream_list rt (trailer_request rt movieId) (utf16 ''results'') = Some []"
  then obtain kvs where body: "upstream_body rt (trailer_request rt movieId) = Some (JObj kvs)"
    and "map_of kvs (utf16 ''results'') = Some (JArr [])"
    by (blast dest: upstream_list_SomeD)
  then have "first_result (JObj kvs) = Inr JNull"
    by (simp add: first_result_def)
  with body show "returned (fetchMovieTrailer rt movieId) = Inr JNull"
    by (rule fetchMovieTrailer_success)
next
  assume "upstream_list rt (trailer_request rt movieId) (utf16 ''results'')
            = Some (JObj first # others)"
  then obtain kvs where body: "upstream_body rt (trailer_request rt movieId) = Some (JObj kvs)"
    and "map_of kvs (utf16 ''results'') = Some (JArr (JObj first # others))"
    by (blast dest: upstream_list_SomeD)
  then have "first_result (JObj kvs) = Inr (JObj first)"
    by (simp add: first_result_def)
  with body show "returned (fetchMovieTrailer rt movieId) = Inr (JObj first)"
    by (rule fetchMovieTrailer_success)
qed

theorem fetchMovieTrailer_first_or_null_witness:
  "upstream_list (example_runtime (ok_with no_videos_body))
      (trailer_request (example_runtime (ok_with no_videos_body)) (utf16 ''603''))
      (utf16 ''results'') = Some []
   \<and> returned (fetchMovieTrailer (example_runtime (ok_with no_videos_body)) (utf16 ''603''))
       = Inr JNull
   \<and> upstream_list (example_runtime (ok_with videos_body))
      (trailer_request (example_runtime (ok_with videos_body)) (utf16 ''603''))
      (utf16 ''results'')
       = Some [JObj [(utf16 ''key'', JStr (utf16 ''vKQi3bBA1y8'')),
                     (utf16 ''site'', JStr (utf16 ''YouTube''))],
               JObj [(utf16 ''key'', JStr (utf16 ''m8e-FF8MsqU'')),
                     (utf16 ''site'', JStr (utf16 ''Vimeo''))]]
   \<and> returned (fetchMovieTrailer (example_runtime (ok_with videos_body)) (utf16 ''603''))
       = Inr (JObj [(utf16 ''key'', JStr (utf16 ''vKQi3bBA1y8'')),
                    (utf16 ''site'', JStr (utf16 ''YouTube''))])"
  using fetchMovieTrailer_first_or_null
          [of "example_runtime (ok_with no_videos_body)" "utf16 ''603''"]
        fetchMovieTrailer_first_or_null
          [of "example_runtime (ok_with videos_body)" "utf16 ''603''"
              "[(utf16 ''key'', JStr (utf16 ''vKQi3bBA1y8'')),
                (utf16 ''site'', JStr (utf16 ''YouTube''))]"
              "[JObj [(utf16 ''key'', JStr (utf16 ''m8e-FF8MsqU'')),
                      (utf16 ''site'', JStr (utf16 ''Vimeo''))]]"]
  by (simp add: upstream_list_example_ok no_videos_body_def videos_body_def)

text \<open>
  The operator \<^verbatim>\<open>||\<close> tests truthiness: were the first entry not an object but one of
  \<^verbatim>\<open>null\<close>, \<^verbatim>\<open>false\<close>, \<^verbatim>\<open>0\<close> or \<^verbatim>\<open>""\<close>, the result would be \<^verbatim>\<open>null\<close>.
\<close>

lemma fetchMovieTrailer_falsy_first:
  assumes "upstream_list rt (trailer_request rt movieId) (utf16 ''results'') = Some (x # others)"
    and "\<not> truthy (Some x)"
  shows "returned (fetchMovieTrailer rt movieId) = Inr JNull"
proof -
  from assms(1) obtain kvs
    where body: "upstream_body rt (trailer_request rt movieId) = Some (JObj kvs)"
    and "map_of kvs (utf16 ''results'') = Some (JArr (x # others))"
    by (blast dest: upstream_list_SomeD)
  with assms(2) have "first_result (JObj kvs) = Inr JNull"
    by (simp add: first_result_def)
  with body show ?thesis
    by (rule fetchMovieTrailer_success)
qed

section \<open>Lists are mapped item by item\<close>

text \<open>
  \<^bold>\<open>C1.\<close> For each operation that returns a list (trending, recommendations, credits,
  reviews, search): when the upstream answers with a successful response whose
  \<^verbatim>\<open>results\<close> (for credits: \<^verbatim>\<open>cast\<close>) list is \<open>xs\<close>, with items of the shape the
  upstream sends, the operation returns a list with as many items as \<open>xs\<close>, and its
  \<open>i\<close>-th item has the fields of the \<open>i\<close>-th item of \<open>xs\<close>, mapped as the table of local
  shapes says: the identifier as a string (an id that is a number by
  \<^verbatim>\<open>toString()\<close>), the image as the fixed prefix followed by the poster path, every
  other field as sent, and for a review the rating and avatar path of its
  \<^verbatim>\<open>author_details\<close>, or \<^verbatim>\<open>null\<close>.
\<close>

theorem list_operations_map_every_item:
  "(upstream_list rt (trending_request rt) (utf16 ''results'') = Some xs
      \<and> (\<forall>x \<in> set xs. movie_shaped x)
      \<longrightarrow> (\<exists>ms. returned (fetchTrendingMovies rt) = Inr ms
            \<and> itemwise (movie_of_item rt) xs ms))
   \<and> (upstream_list rt (recommendation_request rt movieId) (utf16 ''results'') = Some xs
      \<and> (\<forall>x \<in> set xs. movie_shaped x)
      \<longrightarrow> (\<exists>ms. returned (fetchMoviesRecommendation rt movieId) = Inr ms
            \<and> itemwise (movie_of_item rt) xs ms))
   \<and> (upstream_list rt (credits_request rt movieId) (utf16 ''cast'') = Some xs
      \<and> (\<forall>x \<in> set xs. cast_shaped x)
      \<longrightarrow> (\<exists>cs. returned (fetchMovieCredits rt movieId) = Inr cs
            \<and> itemwise (cast_of_item rt) xs cs))
   \<and> (upstream_list rt (reviews_request rt movieId) (utf16 ''results'') = Some xs
      \<and> (\<forall>x \<in> set xs. review_shaped x)
      \<longrightarrow> (\<exists>rs. returned (fetchMovieReviews rt movieId) = Inr rs
            \<and> itemwise review_of_item xs rs))
   \<and> (\<forall>req. search_request rt query = Inr req
      \<and> upstream_list rt req (utf16 ''results'') = Some xs
      \<and> (\<forall>x \<in> set xs. movie_shaped x)
      \<longrightarrow> (\<exists>ms. returned (searchMovies rt query) = Inr ms
            \<and> itemwise (movie_of_item rt) xs ms))"
proof (intro conjI impI allI)
  assume *: "upstream_list rt (trending_request rt) (utf16 ''results'') = Some xs
      \<and> (\<forall>x \<in> set xs. movie_shaped x)"
  then have "\<forall>x \<in> set xs. \<exists>m. toMovie rt x = Inr m"
    by (blast intro: movie_shaped_mapped)
  with * obtain ms where "returned (fetchTrendingMovies rt) = Inr ms"
    and "mapped_in_order (toMovie rt) xs ms"
    by (blast dest: fetchTrendingMovies_maps_list)
  moreover from this(2) * have "itemwise (movie_of_item rt) xs ms"
    by (blast intro: mapped_in_order_itemwise toMovie_movie_of_item)
  ultimately show "\<exists>ms. returned (fetchTrendingMovies rt) = Inr ms
      \<and> itemwise (movie_of_item rt) xs ms"
    by blast
next
  assume *: "upstream_list rt (recommendation_request rt movieId) (utf16 ''results'') = Some xs
      \<and> (\<forall>x \<in> set xs. movie_shaped x)"
  then have "\<forall>x \<in> set xs. \<exists>m. toMovie rt x = Inr m"
    by (blast intro: movie_shaped_mapped)
  with * obtain ms where "returned (fetchMoviesRecommendation rt movieId) = Inr ms"
    and "mapped_in_order (toMovie rt) xs ms"
    by (blast dest: fetchMoviesRecommendation_maps_list)
  moreover from this(2) * have "itemwise (movie_of_item rt) xs ms"
    by (blast intro: mapped_in_order_itemwise toMovie_movie_of_item)
  ultimately show "\<exists>ms. returned (fetchMoviesRecommendation rt movieId) = Inr ms
      \<and> itemwise (movie_of_item rt) xs ms"
    by blast
next
  assume *: "upstream_list rt (credits_request rt movieId) (utf16 ''cast'') = Some xs
      \<and> (\<forall>x \<in> set xs. cast_shaped x)"
  then have "\<forall>x \<in> set xs. \<exists>c. toCast rt x = Inr c"
    by (blast intro: cast_shaped_mapped)
  with * obtain cs where "returned (fetchMovieCredits rt movieId) = Inr cs"
    and "mapped_in_order (toCast rt) xs cs"
    by (blast dest: fetchMovieCredits_maps_list)
  moreover from this(2) * have "itemwise (cast_of_item rt) xs cs"
    by (blast intro: mapped_in_order_itemwise toCast_cast_of_item)
  ultimately show "\<exists>cs. returned (fetchMovieCredits rt movieId) = Inr cs
      \<and> itemwise (cast_of_item rt) xs cs"
    by blast
next
  assume *: "upstream_list rt (reviews_request rt movieId) (utf16 ''results'') = Some xs
      \<and> (\<forall>x \<in> set xs. review_shaped x)"
  then have "\<forall>x \<in> set xs. \<exists>r. toReview x = Inr r"
    by (blast intro: review_shaped_mapped)
  with * obtain rs where "returned (fetchMovieReviews rt movieId) = Inr rs"
    and "mapped_in_order toReview xs rs"
    by (blast dest: fetchMovieReviews_maps_list)
  moreover from this(2) * have "itemwise review_of_item xs rs"
    by (blast intro: mapped_in_order_itemwise toReview_review_of_item)
  ultimately show "\<exists>rs. returned (fetchMovieReviews rt movieId) = Inr rs
      \<and> itemwise review_of_item xs rs"
    by blast
next
  fix req
  assume *: "search_request rt query = Inr req
      \<and> upstream_list rt req (utf16 ''results'') = Some xs
      \<and> (\<forall>x \<in> set xs. movie_shaped x)"
  then have "\<forall>x \<in> set xs. \<exists>m. toMovie rt x = Inr m"
    by (blast intro: movie_shaped_mapped)
  with * obtain ms where "returned (searchMovies rt query) = Inr ms"
    and "mapped_in_order (toMovie rt) xs ms"
    by (blast dest: searchMovies_maps_list)
  moreover from this(2) * have "itemwise (movie_of_item rt) xs ms"
    by (blast intro: mapped_in_order_itemwise toMovie_movie_of_item)
  ultimately show "\<exists>ms. returned (searchMovies rt query) = Inr ms
      \<and> itemwise (movie_of_item rt) xs ms"
    by blast
qed

text \<open>
  An instance: a list of two movies for trending, recommendations and search, one cast
  member, two reviews; the theorem fixes every field of what is returned.
\<close>

theorem list_operations_map_every_item_witness:
  "upstream_list (example_runtime (ok_with movies_body))
      (trending_request (example_runtime (ok_with movies_body))) (utf16 ''results'')
     = Some [the_matrix, no_poster]
   \<and> movie_shaped the_matrix \<and> movie_shaped no_poster
   \<and> returned (fetchTrendingMovies (example_runtime (ok_with movies_body)))
     = Inr [\<lparr>movie_id = utf16 ''603'', movie_title = Some (JStr (utf16 ''The Matrix'')),
             movie_image = utf16 ''https://image.tmdb.org/t/p/w500/matrix.jpg'',
             movie_rating = Some (JNum (Finite (41 / 5)))\<rparr>,
            \<lparr>movie_id = utf16 ''604'',
             movie_title = Some (JStr (utf16 ''The Matrix Reloaded'')),
             movie_image = utf16 ''https://image.tmdb.org/t/p/w500null'',
             movie_rating = Some (JNum (Finite 7))\<rparr>]
   \<and> returned (fetchMoviesRecommendation (example_runtime (ok_with movies_body)) (utf16 ''603''))
     = Inr [the_matrix_movie, no_poster_movie]
   \<and> returned (searchMovies (example_runtime (ok_with movies_body)) (utf16 ''matrix''))
     = Inr [the_matrix_movie, no_poster_movie]
   \<and> upstream_list (example_runtime (ok_with credits_body))
      (credits_request (example_runtime (ok_with credits_body)) (utf16 ''603'')) (utf16 ''cast'')
     = Some [neo]
   \<and> cast_shaped neo
   \<and> returned (fetchMovieCredits (example_runtime (ok_with credits_body)) (utf16 ''603''))
     = Inr [\<lparr>cast_id = utf16 ''6384'',
             cast_profile_path = Some (JStr (utf16 ''/keanu.jpg'')),
             cast_name = Some (JStr (utf16 ''Keanu Reeves'')),
             cast_character = Some (JStr (utf16 ''Neo'')),
             cast_known_for_department = Some (JStr (utf16 ''Acting''))\<rparr>]
   \<and> upstream_list (example_runtime (ok_with reviews_body))
      (reviews_request (example_runtime (ok_with reviews_body)) (utf16 ''603''))
      (utf16 ''results'')
     = Some [rated_review, plain_review]
   \<and> review_shaped rated_review \<and> review_shaped plain_review
   \<and> returned (fetchMovieReviews (example_runtime (ok_with reviews_body)) (utf16 ''603''))
     = Inr [\<lparr>review_id = Some (JStr (utf16 ''5f0e1a'')),
             review_author = Some (JStr (utf16 ''ann'')),
             review_content = Some (JStr (utf16 ''Still holds up.'')),
             review_created_at = Some (JStr (utf16 ''2020-07-15T09:00:00.000Z'')),
             review_url = Some (JStr (utf16 ''https://www.themoviedb.org/review/5f0e1a'')),
             review_rating = JNum (Finite 7), review_avatar_path = JNull\<rparr>,
            \<lparr>review_id = Some (JStr (utf16 ''60aa2b'')),
             review_author = Some (JStr (utf16 ''bob'')),
             review_content = Some (JStr (utf16 ''Fine.'')),
             review_created_at = Some (JStr (utf16 ''2021-05-23T18:30:00.000Z'')),
             review_url = Some (JStr (utf16 ''https://www.themoviedb.org/review/60aa2b'')),
             review_rating = JNull, review_avatar_path = JNull\<rparr>]"
proof -
  note movies = list_operations_map_every_item
          [of "example_runtime (ok_with movies_body)" "[the_matrix, no_poster]"
              "utf16 ''603''" "utf16 ''matrix''"]
  note credits = list_operations_map_every_item
          [of "example_runtime (ok_with credits_body)" "[neo]"
              "utf16 ''603''" "utf16 ''matrix''"]
  note reviews = list_operations_map_every_item
          [of "example_runtime (ok_with reviews_body)" "[rated_review, plain_review]"
              "utf16 ''603''" "utf16 ''matrix''"]
  from movies
  have "\<exists>ms. returned (fetchTrendingMovies (example_runtime (ok_with movies_body))) = Inr ms
      \<and> itemwise (movie_of_item (example_runtime (ok_with movies_body)))
          [the_matrix, no_poster] ms"
    and "\<exists>ms. returned (fetchMoviesRecommendation (example_runtime (ok_with movies_body))
          (utf16 ''603'')) = Inr ms
      \<and> itemwise (movie_of_item (example_runtime (ok_with movies_body)))
          [the_matrix, no_poster] ms"
    and "\<exists>ms. returned (searchMovies (example_runtime (ok_with movies_body))
          (utf16 ''matrix'')) = Inr ms
      \<and> itemwise (movie_of_item (example_runtime (ok_with movies_body)))
          [the_matrix, no_poster] ms"
    by (simp_all add: movie_shaped_examples search_request_matrix)
  then have trending:
      "returned (fetchTrendingMovies (example_runtime (ok_with movies_body)))
         = Inr [the_matrix_movie, no_poster_movie]"
    and recommendation:
      "returned (fetchMoviesRecommendation (example_runtime (ok_with movies_body))
          (utf16 ''603'')) = Inr [the_matrix_movie, no_poster_movie]"
    and search:
      "returned (searchMovies (example_runtime (ok_with movies_body)) (utf16 ''matrix''))
         = Inr [the_matrix_movie, no_poster_movie]"
    by (auto simp: itemwise_two movie_of_item_the_matrix movie_of_item_no_poster)
  from credits
  have "\<exists>cs. returned (fetchMovieCredits (example_runtime (ok_with credits_body))
          (utf16 ''603'')) = Inr cs
      \<and> itemwise (cast_of_item (example_runtime (ok_with credits_body))) [neo] cs"
    by (simp add: cast_shaped_neo)
  then have cast:
      "returned (fetchMovieCredits (example_runtime (ok_with credits_body)) (utf16 ''603''))
         = Inr [neo_cast]"
    by (auto simp: itemwise_one cast_of_item_neo)
  from reviews
  have "\<exists>rs. returned (fetchMovieReviews (example_runtime (ok_with reviews_body))
          (utf16 ''603'')) = Inr rs
      \<and> itemwise review_of_item [rated_review, plain_review] rs"
    by (simp add: review_shaped_examples)
  then have review:
      "returned (fetchMovieReviews (example_runtime (ok_with reviews_body)) (utf16 ''603''))
         = Inr [rated_review_out, plain_review_out]"
    by (auto simp: itemwise_two review_of_item_rated_review review_of_item_plain_review)
  from trending recommendation search cast review show ?thesis
    by (simp add: movie_shaped_examples cast_shaped_neo review_shaped_examples
        the_matrix_movie_def no_poster_movie_def neo_cast_def
        rated_review_out_def plain_review_out_def)
qed

section \<open>Fields of the local shapes\<close>

text \<open>
  \<^bold>\<open>C8.\<close> Every movie that trending, recommendations or search returns, and the detail
  that \<^verbatim>\<open>fetchMovieDetail\<close> returns, carries as its rating the \<^verbatim>\<open>vote_average\<close> of the
  upstream item it was made from, unchanged.
\<close>

theorem rating_is_vote_average:
  "(returned (fetchTrendingMovies rt) = Inr ms
      \<longrightarrow> ms = [] \<or> (\<exists>xs. upstream_list rt (trending_request rt) (utf16 ''results'') = Some xs
            \<and> list_all2 (\<lambda>x m. get (Some x) (utf16 ''vote_average'') = Inr (movie_rating m))
                 xs ms))
   \<and> (returned (fetchMoviesRecommendation rt movieId) = Inr ms
      \<longrightarrow> ms = [] \<or> (\<exists>xs. upstream_list rt (recommendation_request rt movieId)
                          (utf16 ''results'') = Some xs
            \<and> list_all2 (\<lambda>x m. get (Some x) (utf16 ''vote_average'') = Inr (movie_rating m))
                 xs ms))
   \<and> (returned (searchMovies rt query) = Inr ms
      \<longrightarrow> ms = [] \<or> (\<exists>req xs. search_request rt query = Inr req
            \<and> upstream_list rt req (utf16 ''results'') = Some xs
            \<and> list_all2 (\<lambda>x m. get (Some x) (utf16 ''vote_average'') = Inr (movie_rating m))
                 xs ms))
   \<and> (returned (fetchMovieDetail rt movieId) = Inr d
      \<longrightarrow> (\<exists>data. upstream_body rt (detail_request rt movieId) = Some data
            \<and> get (Some data) (utf16 ''vote_average'') = Inr (detail_rating d)))"
proof (intro conjI impI)
  assume "returned (fetchTrendingMovies rt) = Inr ms"
  then show "ms = [] \<or> (\<exists>xs. upstream_list rt (trending_request rt) (utf16 ''results'') = Some xs
      \<and> list_all2 (\<lambda>x m. get (Some x) (utf16 ''vote_average'') = Inr (movie_rating m)) xs ms)"
    by (rule fetchTrendingMovies_each) (rule toMovie_rating)
next
  assume "returned (fetchMoviesRecommendation rt movieId) = Inr ms"
  then show "ms = [] \<or> (\<exists>xs. upstream_list rt (recommendation_request rt movieId)
                          (utf16 ''results'') = Some xs
      \<and> list_all2 (\<lambda>x m. get (Some x) (utf16 ''vote_average'') = Inr (movie_rating m)) xs ms)"
    by (rule fetchMoviesRecommendation_each) (rule toMovie_rating)
next
  assume "returned (searchMovies rt query) = Inr ms"
  then show "ms = [] \<or> (\<exists>req xs. search_request rt query = Inr req
      \<and> upstream_list rt req (utf16 ''results'') = Some xs
      \<and> list_all2 (\<lambda>x m. get (Some x) (utf16 ''vote_average'') = Inr (movie_rating m)) xs ms)"
    by (rule searchMovies_each) (rule toMovie_rating)
next
  assume "returned (fetchMovieDetail rt movieId) = Inr d"
  then show "\<exists>data. upstream_body rt (detail_request rt movieId) = Some data
      \<and> get (Some data) (utf16 ''vote_average'') = Inr (detail_rating d)"
    by (blast dest: fetchMovieDetail_provenance toMovieDetail_rating)
qed

text \<open>An instance: a vote average of 8.2 and one of 7 arrive as they were sent.\<close>

theorem rating_is_vote_average_witness:
  "returned (fetchTrendingMovies (example_runtime (ok_with movies_body)))
     = Inr [the_matrix_movie, no_poster_movie]
   \<and> returned (fetchMoviesRecommendation (example_runtime (ok_with movies_body)) (utf16 ''603''))
     = Inr [the_matrix_movie, no_poster_movie]
   \<and> returned (searchMovies (example_runtime (ok_with movies_body)) (utf16 ''matrix''))
     = Inr [the_matrix_movie, no_poster_movie]
   \<and> get (Some the_matrix) (utf16 ''vote_average'') = Inr (Some (JNum (Finite (41 / 5))))
   \<and> movie_rating the_matrix_movie = Some (JNum (Finite (41 / 5)))
   \<and> get (Some no_poster) (utf16 ''vote_average'') = Inr (movie_rating no_poster_movie)
   \<and> returned (fetchMovieDetail (example_runtime (ok_with detail_body)) (utf16 ''603''))
     = Inr the_matrix_detail
   \<and> get (Some detail_body) (utf16 ''vote_average'') = Inr (detail_rating the_matrix_detail)"
proof -
  from rating_is_vote_average
          [of "example_runtime (ok_with movies_body)" "[the_matrix_movie, no_poster_movie]"
              "utf16 ''603''" "utf16 ''matrix''" the_matrix_detail]
  have "get (Some the_matrix) (utf16 ''vote_average'') = Inr (movie_rating the_matrix_movie)
      \<and> get (Some no_poster) (utf16 ''vote_average'') = Inr (movie_rating no_poster_movie)"
    by (simp add: fetchTrendingMovies_example)
  moreover
  from rating_is_vote_average
          [of "example_runtime (ok_with detail_body)" "[]" "utf16 ''603''" "utf16 ''matrix''"
              the_matrix_detail]
  have "get (Some detail_body) (utf16 ''vote_average'') = Inr (detail_rating the_matrix_detail)"
    by (simp add: fetchMovieDetail_example)
  moreover
  have "movie_rating the_matrix_movie = Some (JNum (Finite (41 / 5)))"
    by (simp add: the_matrix_movie_def)
  ultimately show ?thesis
    by (simp add: fetchTrendingMovies_example fetchMoviesRecommendation_example
        searchMovies_example fetchMovieDetail_example)
qed



text \<open>
  \<^bold>\<open>C9.\<close> The id of every movie, detail and cast member returned is the \<^verbatim>\<open>toString()\<close>
  of the upstream numeric \<^verbatim>\<open>id\<close>, which for a whole number up to \<open>2\<^sup>5\<^sup>3\<close> is the
  string of its decimal digits; the id of a review is the upstream \<^verbatim>\<open>id\<close> itself.
\<close>

theorem ids_are_rendered_or_passed_on:
  "(returned (fetchTrendingMovies rt) = Inr ms
      \<longrightarrow> ms = [] \<or> (\<exists>xs. upstream_list rt (trending_request rt) (utf16 ''results'') = Some xs
            \<and> list_all2 (\<lambda>x m. id_of_number rt x (movie_id m)) xs ms))
   \<and> (returned (fetchMoviesRecommendation rt movieId) = Inr ms
      \<longrightarrow> ms = [] \<or> (\<exists>xs. upstream_list rt (recommendation_request rt movieId)
                          (utf16 ''results'') = Some xs
            \<and> list_all2 (\<lambda>x m. id_of_number rt x (movie_id m)) xs ms))
   \<and> (returned (searchMovies rt query) = Inr ms
      \<longrightarrow> ms = [] \<or> (\<exists>req xs. search_request rt query = Inr req
            \<and> upstream_list rt req (utf16 ''results'') = Some xs
            \<and> list_all2 (\<lambda>x m. id_of_number rt x (movie_id m)) xs ms))
   \<and> (returned (fetchMovieDetail rt movieId) = Inr d
      \<longrightarrow> (\<exists>data. upstream_body rt (detail_request rt movieId) = Some data
            \<and> id_of_number rt data (detail_id d)))
   \<and> (returned (fetchMovieCredits rt movieId) = Inr cs
      \<longrightarrow> cs = [] \<or> (\<exists>xs. upstream_list rt (credits_request rt movieId) (utf16 ''cast'')
                          = Some xs
            \<and> list_all2 (\<lambda>x c. id_of_number rt x (cast_id c)) xs cs))
   \<and> (returned (fetchMovieReviews rt movieId) = Inr rs
      \<longrightarrow> rs = [] \<or> (\<exists>xs. upstream_list rt (reviews_request rt movieId) (utf16 ''results'')
                          = Some xs
            \<and> list_all2 (\<lambda>x r. get (Some x) (utf16 ''id'') = Inr (review_id r)) xs rs))
   \<and> (k \<le> 2 ^ 53
      \<longrightarrow> number_toString (shortest rt) (Finite (of_nat k)) = decimal k
          \<and> digits_value (decimal k) = k
          \<and> (\<forall>c \<in> set (decimal k). 48 \<le> unat c \<and> unat c \<le> 57))"
proof (intro conjI impI ballI)
  assume "returned (fetchTrendingMovies rt) = Inr ms"
  then show "ms = [] \<or> (\<exists>xs. upstream_list rt (trending_request rt) (utf16 ''results'') = Some xs
      \<and> list_all2 (\<lambda>x m. id_of_number rt x (movie_id m)) xs ms)"
    by (rule fetchTrendingMovies_each) (rule toMovie_id)
next
  assume "returned (fetchMoviesRecommendation rt movieId) = Inr ms"
  then show "ms = [] \<or> (\<exists>xs. upstream_list rt (recommendation_request rt movieId)
                          (utf16 ''results'') = Some xs
      \<and> list_all2 (\<lambda>x m. id_of_number rt x (movie_id m)) xs ms)"
    by (rule fetchMoviesRecommendation_each) (rule toMovie_id)
next
  assume "returned (searchMovies rt query) = Inr ms"
  then show "ms = [] \<or> (\<exists>req xs. search_request rt query = Inr req
      \<and> upstream_list rt req (utf16 ''results'') = Some xs
      \<and> list_all2 (\<lambda>x m. id_of_number rt x (movie_id m)) xs ms)"
    by (rule searchMovies_each) (rule toMovie_id)
next
  assume "returned (fetchMovieDetail rt movieId) = Inr d"
  then show "\<exists>data. upstream_body rt (detail_request rt movieId) = Some data
      \<and> id_of_number rt data (detail_id d)"
    by (blast dest: fetchMovieDetail_provenance toMovieDetail_id)
next
  assume "returned (fetchMovieCredits rt movieId) = Inr cs"
  then show "cs = [] \<or> (\<exists>xs. upstream_list rt (credits_request rt movieId) (utf16 ''cast'')
                          = Some xs
      \<and> list_all2 (\<lambda>x c. id_of_number rt x (cast_id c)) xs cs)"
    by (rule fetchMovieCredits_each) (rule toCast_id)
next
  assume "returned (fetchMovieReviews rt movieId) = Inr rs"
  then show "rs = [] \<or> (\<exists>xs. upstream_list rt (reviews_request rt movieId) (utf16 ''results'')
                          = Some xs
      \<and> list_all2 (\<lambda>x r. get (Some x) (utf16 ''id'') = Inr (review_id r)) xs rs)"
    by (rule fetchMovieReviews_each) (rule toReview_id)
next
  assume "k \<le> 2 ^ 53"
  then show "number_toString (shortest rt) (Finite (of_nat k)) = decimal k"
    by (rule number_toString_nat)
next
  show "digits_value (decimal k) = k"
    by (rule digits_value_decimal)
next
  fix c
  assume "c \<in> set (decimal k)"
  then show "48 \<le> unat c" and "unat c \<le> 57"
    by (simp_all add: decimal_digits)
qed

text \<open>An instance: the ids 603, 604 and 6384, and the review id \<^verbatim>\<open>5f0e1a\<close>.\<close>

theorem ids_are_rendered_or_passed_on_witness:
  "returned (fetchTrendingMovies (example_runtime (ok_with movies_body)))
     = Inr [the_matrix_movie, no_poster_movie]
   \<and> id_of_number (example_runtime (ok_with movies_body)) the_matrix (movie_id the_matrix_movie)
   \<and> get (Some the_matrix) (utf16 ''id'') = Inr (Some (JNum (Finite 603)))
   \<and> movie_id the_matrix_movie = utf16 ''603''
   \<and> returned (fetchMovieDetail (example_runtime (ok_with detail_body)) (utf16 ''603''))
     = Inr the_matrix_detail
   \<and> id_of_number (example_runtime (ok_with detail_body)) detail_body
        (detail_id the_matrix_detail)
   \<and> returned (fetchMovieCredits (example_runtime (ok_with credits_body)) (utf16 ''603''))
     = Inr [neo_cast]
   \<and> id_of_number (example_runtime (ok_with credits_body)) neo (cast_id neo_cast)
   \<and> cast_id neo_cast = utf16 ''6384''
   \<and> returned (fetchMovieReviews (example_runtime (ok_with reviews_body)) (utf16 ''603''))
     = Inr [rated_review_out, plain_review_out]
   \<and> get (Some rated_review) (utf16 ''id'') = Inr (review_id rated_review_out)
   \<and> review_id rated_review_out = Some (JStr (utf16 ''5f0e1a''))
   \<and> (603 :: nat) \<le> 2 ^ 53
   \<and> number_toString (shortest (example_runtime (ok_with movies_body))) (Finite (of_nat 603))
     = utf16 ''603''
   \<and> digits_value (utf16 ''603'') = 603"
proof -
  from ids_are_rendered_or_passed_on
          [of "example_runtime (ok_with movies_body)" "[the_matrix_movie, no_poster_movie]"
              "utf16 ''603''" "utf16 ''matrix''" the_matrix_detail "[]" "[]" 603]
  have "id_of_number (example_runtime (ok_with movies_body)) the_matrix
          (movie_id the_matrix_movie)"
    and "number_toString (shortest (example_runtime (ok_with movies_body)))
          (Finite (of_nat 603)) = utf16 ''603''"
    and "digits_value (utf16 ''603'') = 603"
    by (simp_all add: fetchTrendingMovies_example decimal_603)
  moreover
  from ids_are_rendered_or_passed_on
          [of "example_runtime (ok_with detail_body)" "[]" "utf16 ''603''" "utf16 ''matrix''"
              the_matrix_detail "[]" "[]" 603]
  have "id_of_number (example_runtime (ok_with detail_body)) detail_body
          (detail_id the_matrix_detail)"
    by (simp add: fetchMovieDetail_example)
  moreover
  from ids_are_rendered_or_passed_on
          [of "example_runtime (ok_with credits_body)" "[]" "utf16 ''603''" "utf16 ''matrix''"
              the_matrix_detail "[neo_cast]" "[]" 603]
  have "id_of_number (example_runtime (ok_with credits_body)) neo (cast_id neo_cast)"
    by (simp add: fetchMovieCredits_example)
  moreover
  from ids_are_rendered_or_passed_on
          [of "example_runtime (ok_with reviews_body)" "[]" "utf16 ''603''" "utf16 ''matrix''"
              the_matrix_detail "[]" "[rated_review_out, plain_review_out]" 603]
  have "get (Some rated_review) (utf16 ''id'') = Inr (review_id rated_review_out)"
    by (simp add: fetchMovieReviews_example)
  moreover
  have "get (Some the_matrix) (utf16 ''id'') = Inr (Some (JNum (Finite 603)))"
    and "movie_id the_matrix_movie = utf16 ''603''"
    and "cast_id neo_cast = utf16 ''6384''"
    and "review_id rated_review_out = Some (JStr (utf16 ''5f0e1a''))"
    by (simp_all add: the_matrix_def the_matrix_movie_def neo_cast_def rated_review_out_def)
  ultimately show ?thesis
    by (simp add: fetchTrendingMovies_example fetchMovieDetail_example
        fetchMovieCredits_example fetchMovieReviews_example)
qed

section \<open>Reviews\<close>



section \<open>The search request\<close>

text \<open>
  \<^bold>\<open>C10\<close>, as the code has it. For a query that is well formed (no surrogate without
  its partner), the request of \<^verbatim>\<open>searchMovies\<close> has the URL
  \<^verbatim>\<open>https://api.themoviedb.org/3/search/movie?query=\<close>, then the query as
  \<^verbatim>\<open>encodeURIComponent\<close> writes it, then \<^verbatim>\<open>&language=en-US\<close>; the encoded query
  consists of unreserved characters and \<^verbatim>\<open>%XX\<close> escapes only, all of them ASCII and
  none of them \<^verbatim>\<open>&\<close>, \<^verbatim>\<open>=\<close>, \<^verbatim>\<open>#\<close>, \<^verbatim>\<open>?\<close>, \<^verbatim>\<open>+\<close>, \<^verbatim>\<open>/\<close> or a space; and the outcome of
  the operation depends on the network through the answer to this request alone. For
  a query that is not well formed, \<^verbatim>\<open>encodeURIComponent\<close> throws \<open>URIError\<close>: no URL
  is built, no request is made, and the operation returns the empty list.
\<close>

theorem search_request_encodes_well_formed_query:
  "(well_formed query \<longrightarrow>
      (\<exists>encoded. encodeURIComponent query = Inr encoded
         \<and> search_request rt query =
             Inr \<lparr>url = utf16 ''https://api.themoviedb.org/3/search/movie?query='' @ encoded
                        @ utf16 ''&language=en-US'',
                  headers = [authorization rt], revalidate = None\<rparr>
         \<and> (\<forall>c \<in> set encoded. (uriUnescaped c \<or> c = 37) \<and> unat c < 128
               \<and> c \<notin> set (utf16 ''&=#?+/ ''))))
   \<and> (\<forall>req rt'. search_request rt query = Inr req \<and> fetch rt' req = fetch rt req
         \<and> NEXT_PUBLIC_TMDB_ACCESS_TOKEN rt' = NEXT_PUBLIC_TMDB_ACCESS_TOKEN rt
         \<and> shortest rt' = shortest rt
       \<longrightarrow> searchMovies rt' query = searchMovies rt query)
   \<and> (\<not> well_formed query \<longrightarrow>
        search_request rt query = Inl URIError
      \<and> returned (searchMovies rt query) = Inr [])"
proof (intro conjI impI allI)
  assume "well_formed query"
  then obtain encoded where encoded: "encodeURIComponent query = Inr encoded"
    by (blast dest: encodeURIComponent_well_formed)
  have safe: "\<forall>c \<in> set encoded. (uriUnescaped c \<or> c = 37) \<and> unat c < 128
               \<and> c \<notin> set (utf16 ''&=#?+/ '')"
  proof
    fix c
    assume "c \<in> set encoded"
    with encoded show "(uriUnescaped c \<or> c = 37) \<and> unat c < 128
               \<and> c \<notin> set (utf16 ''&=#?+/ '')"
      by (rule encoded_characters)
  qed
  from encoded
  have request: "search_request rt query =
             Inr \<lparr>url = utf16 ''https://api.themoviedb.org/3/search/movie?query='' @ encoded
                        @ utf16 ''&language=en-US'',
                  headers = [authorization rt], revalidate = None\<rparr>"
    by (simp add: search_request_def)
  from encoded request safe
  show "\<exists>encoded. encodeURIComponent query = Inr encoded
         \<and> search_request rt query =
             Inr \<lparr>url = utf16 ''https://api.themoviedb.org/3/search/movie?query='' @ encoded
                        @ utf16 ''&language=en-US'',
                  headers = [authorization rt], revalidate = None\<rparr>
         \<and> (\<forall>c \<in> set encoded. (uriUnescaped c \<or> c = 37) \<and> unat c < 128
               \<and> c \<notin> set (utf16 ''&=#?+/ ''))"
    by (intro exI [of _ encoded] conjI)
next
  fix req and rt' :: runtime
  assume "search_request rt query = Inr req \<and> fetch rt' req = fetch rt req
         \<and> NEXT_PUBLIC_TMDB_ACCESS_TOKEN rt' = NEXT_PUBLIC_TMDB_ACCESS_TOKEN rt
         \<and> shortest rt' = shortest rt"
  then show "searchMovies rt' query = searchMovies rt query"
    by (blast intro: searchMovies_one_request)
next
  assume "\<not> well_formed query"
  then have "encodeURIComponent query = Inl URIError"
    by (rule encodeURIComponent_not_well_formed)
  then show request: "search_request rt query = Inl URIError"
    by (simp add: search_request_def)
  then show "returned (searchMovies rt query) = Inr []"
    by (rule searchMovies_no_request)
qed

text \<open>
  An instance: the query \<^verbatim>\<open>a&b=c d\<close> followed by U+00E9 and U+1F600, and the query
  \<^verbatim>\<open>hi\<close> followed by the first half of U+1F600.
\<close>

theorem search_request_encodes_well_formed_query_witness:
  "well_formed (utf16 ''a&b=c d'' @ [0xE9, 0xD83D, 0xDE00])
   \<and> search_request (example_runtime (ok_with movies_body))
        (utf16 ''a&b=c d'' @ [0xE9, 0xD83D, 0xDE00])
       = Inr \<lparr>url = utf16 ''https://api.themoviedb.org/3/search/movie?query=''
                    @ utf16 ''a%26b%3Dc%20d%C3%A9%F0%9F%98%80'' @ utf16 ''&language=en-US'',
              headers = [authorization (example_runtime (ok_with movies_body))],
              revalidate = None\<rparr>
   \<and> set (utf16 ''a%26b%3Dc%20d%C3%A9%F0%9F%98%80'') \<inter> set (utf16 ''&=#?+/ '') = {}
   \<and> \<not> well_formed (utf16 ''hi'' @ [0xD83D])
   \<and> search_request (example_runtime (ok_with movies_body)) (utf16 ''hi'' @ [0xD83D])
       = Inl URIError
   \<and> returned (searchMovies (example_runtime (ok_with movies_body)) (utf16 ''hi'' @ [0xD83D]))
       = Inr []"
  using search_request_encodes_well_formed_query
          [of "utf16 ''a&b=c d'' @ [0xE9, 0xD83D, 0xDE00]"
              "example_runtime (ok_with movies_body)"]
        search_request_encodes_well_formed_query
          [of "utf16 ''hi'' @ [0xD83D]" "example_runtime (ok_with movies_body)"]
        well_formed_query half_emoji_not_well_formed
  by (simp only: encode_query simp_thms sum.inject disjoint_iff) blast

text \<open>
  The claim as the specification words it, for \<^emph>\<open>every\<close> query string, fails: for the
  query \<^verbatim>\<open>hi\<close> followed by half an emoji no request URL is built at all, although the
  upstream would have answered with two movies.
\<close>

theorem search_request_not_for_every_query:
  "search_request (example_runtime (ok_with movies_body)) (utf16 ''hi'' @ [0xD83D])
     = Inl URIError
   \<and> returned (searchMovies (example_runtime (ok_with movies_body)) (utf16 ''hi'' @ [0xD83D]))
     = Inr []
   \<and> returned (searchMovies (example_runtime (ok_with movies_body)) (utf16 ''matrix''))
     = Inr [the_matrix_movie, no_poster_movie]"
proof -
  have "encodeURIComponent (utf16 ''hi'' @ [0xD83D]) = Inl URIError"
    by (simp add: encodeURIComponent.simps utf16_def uriUnescaped_def is_lead_surrogate_def
        is_trail_surrogate_def prepend_def)
  then have "search_request (example_runtime (ok_with movies_body)) (utf16 ''hi'' @ [0xD83D])
     = Inl URIError"
    by (simp add: search_request_def)
  then show ?thesis
    by (simp add: searchMovies_no_request searchMovies_example)
qed

end
